theory Spec2Isabelle
  imports Complex_Main "HOL-Library.Word"
begin

section \<open>SpecificConfigs.hpp: enumerations\<close>

text \<open>
  C++ \<open>int\<close> is a 32-bit two's complement integer, read with \<open>sint\<close>.
  \<open>size_t\<close> is a 64-bit unsigned integer, read with \<open>unat\<close>.
\<close>

type_synonym int32 = "32 word"
type_synonym size_t = "64 word"

datatype DecodingSpeed = Fast | Normal | Slow | Rigorous

text \<open>The enumerators of \<open>DecodingSpeed\<close> are numbered from \<open>Fast = 0\<close>.\<close>

fun DecodingSpeed_value :: "DecodingSpeed \<Rightarrow> int32" where
  "DecodingSpeed_value Fast = 0"
| "DecodingSpeed_value Normal = 1"
| "DecodingSpeed_value Slow = 2"
| "DecodingSpeed_value Rigorous = 3"

text \<open>
  \<open>static_cast<DecodingSpeed>(speed)\<close> keeps the integer as it is (the enumeration has
  underlying type \<open>int\<close>); the result names an enumerator only for 0 to 3.
\<close>

definition DecodingSpeed_of_value :: "int32 \<Rightarrow> DecodingSpeed option" where
  "DecodingSpeed_of_value v =
     (if v = 0 then Some Fast else if v = 1 then Some Normal
      else if v = 2 then Some Slow else if v = 3 then Some Rigorous else None)"

datatype BarcodeType =
    BT_Aztec | BT_AztecCompact | BT_QR | BT_QRMicro | BT_Code128 | BT_Code93 | BT_Code39
  | BT_Codabar | BT_Code11 | BT_Msi | BT_UpcA | BT_UpcE | BT_UpcE1 | BT_Ean13 | BT_Ean8
  | BT_PDF417 | BT_PDF417Micro | BT_Datamatrix | BT_Code25 | BT_Interleaved25 | BT_ITF14
  | BT_IATA25 | BT_Matrix25 | BT_Datalogic25 | BT_COOP25 | BT_Code32 | BT_Telepen
  | BT_Dotcode | BT_IDDocument | BT_IDMRZ | BT_IDPicture | BT_IDSignature | BT_Databar14
  | BT_DatabarLimited | BT_DatabarExpanded | BT_PostalIMB | BT_Postnet | BT_Planet
  | BT_AustralianPost | BT_RoyalMail | BT_KIX | BT_JapanesePost | BT_MaxiCode

datatype DecoderType =
    Aztec | AztecCompact | QR | QRMicro | Code128 | Code93 | Code39
  | Codabar | Code11 | Msi | UpcA | UpcE | UpcE1 | Ean13 | Ean8
  | PDF417 | PDF417Micro | Datamatrix | Code25 | Interleaved25 | ITF14
  | IATA25 | Matrix25 | Datalogic25 | COOP25 | Code32 | Telepen
  | Dotcode | IDDocument | Databar14
  | DatabarLimited | DatabarExpanded | PostalIMB | Postnet | Planet
  | AustralianPost | RoyalMail | KIX | JapanesePost | MaxiCode

text \<open>The identifier of each enumerator, as written in the header.\<close>

fun BarcodeType_name :: "BarcodeType \<Rightarrow> string" where
  "BarcodeType_name BT_Aztec = ''Aztec''"
| "BarcodeType_name BT_AztecCompact = ''AztecCompact''"
| "BarcodeType_name BT_QR = ''QR''"
| "BarcodeType_name BT_QRMicro = ''QRMicro''"
| "BarcodeType_name BT_Code128 = ''Code128''"
| "BarcodeType_name BT_Code93 = ''Code93''"
| "BarcodeType_name BT_Code39 = ''Code39''"
| "BarcodeType_name BT_Codabar = ''Codabar''"
| "BarcodeType_name BT_Code11 = ''Code11''"
| "BarcodeType_name BT_Msi = ''Msi''"
| "BarcodeType_name BT_UpcA = ''UpcA''"
| "BarcodeType_name BT_UpcE = ''UpcE''"
| "BarcodeType_name BT_UpcE1 = ''UpcE1''"
| "BarcodeType_name BT_Ean13 = ''Ean13''"
| "BarcodeType_name BT_Ean8 = ''Ean8''"
| "BarcodeType_name BT_PDF417 = ''PDF417''"
| "BarcodeType_name BT_PDF417Micro = ''PDF417Micro''"
| "BarcodeType_name BT_Datamatrix = ''Datamatrix''"
| "BarcodeType_name BT_Code25 = ''Code25''"
| "BarcodeType_name BT_Interleaved25 = ''Interleaved25''"
| "BarcodeType_name BT_ITF14 = ''ITF14''"
| "BarcodeType_name BT_IATA25 = ''IATA25''"
| "BarcodeType_name BT_Matrix25 = ''Matrix25''"
| "BarcodeType_name BT_Datalogic25 = ''Datalogic25''"
| "BarcodeType_name BT_COOP25 = ''COOP25''"
| "BarcodeType_name BT_Code32 = ''Code32''"
| "BarcodeType_name BT_Telepen = ''Telepen''"
| "BarcodeType_name BT_Dotcode = ''Dotcode''"
| "BarcodeType_name BT_IDDocument = ''IDDocument''"
| "BarcodeType_name BT_IDMRZ = ''IDMRZ''"
| "BarcodeType_name BT_IDPicture = ''IDPicture''"
| "BarcodeType_name BT_IDSignature = ''IDSignature''"
| "BarcodeType_name BT_Databar14 = ''Databar14''"
| "BarcodeType_name BT_DatabarLimited = ''DatabarLimited''"
| "BarcodeType_name BT_DatabarExpanded = ''DatabarExpanded''"
| "BarcodeType_name BT_PostalIMB = ''PostalIMB''"
| "BarcodeType_name BT_Postnet = ''Postnet''"
| "BarcodeType_name BT_Planet = ''Planet''"
| "BarcodeType_name BT_AustralianPost = ''AustralianPost''"
| "BarcodeType_name BT_RoyalMail = ''RoyalMail''"
| "BarcodeType_name BT_KIX = ''KIX''"
| "BarcodeType_name BT_JapanesePost = ''JapanesePost''"
| "BarcodeType_name BT_MaxiCode = ''MaxiCode''"

fun DecoderType_name :: "DecoderType \<Rightarrow> string" where
  "DecoderType_name Aztec = ''Aztec''"
| "DecoderType_name AztecCompact = ''AztecCompact''"
| "DecoderType_name QR = ''QR''"
| "DecoderType_name QRMicro = ''QRMicro''"
| "DecoderType_name Code128 = ''Code128''"
| "DecoderType_name Code93 = ''Code93''"
| "DecoderType_name Code39 = ''Code39''"
| "DecoderType_name Codabar = ''Codabar''"
| "DecoderType_name Code11 = ''Code11''"
| "DecoderType_name Msi = ''Msi''"
| "DecoderType_name UpcA = ''UpcA''"
| "DecoderType_name UpcE = ''UpcE''"
| "DecoderType_name UpcE1 = ''UpcE1''"
| "DecoderType_name Ean13 = ''Ean13''"
| "DecoderType_name Ean8 = ''Ean8''"
| "DecoderType_name PDF417 = ''PDF417''"
| "DecoderType_name PDF417Micro = ''PDF417Micro''"
| "DecoderType_name Datamatrix = ''Datamatrix''"
| "DecoderType_name Code25 = ''Code25''"
| "DecoderType_name Interleaved25 = ''Interleaved25''"
| "DecoderType_name ITF14 = ''ITF14''"
| "DecoderType_name IATA25 = ''IATA25''"
| "DecoderType_name Matrix25 = ''Matrix25''"
| "DecoderType_name Datalogic25 = ''Datalogic25''"
| "DecoderType_name COOP25 = ''COOP25''"
| "DecoderType_name Code32 = ''Code32''"
| "DecoderType_name Telepen = ''Telepen''"
| "DecoderType_name Dotcode = ''Dotcode''"
| "DecoderType_name IDDocument = ''IDDocument''"
| "DecoderType_name Databar14 = ''Databar14''"
| "DecoderType_name DatabarLimited = ''DatabarLimited''"
| "DecoderType_name DatabarExpanded = ''DatabarExpanded''"
| "DecoderType_name PostalIMB = ''PostalIMB''"
| "DecoderType_name Postnet = ''Postnet''"
| "DecoderType_name Planet = ''Planet''"
| "DecoderType_name AustralianPost = ''AustralianPost''"
| "DecoderType_name RoyalMail = ''RoyalMail''"
| "DecoderType_name KIX = ''KIX''"
| "DecoderType_name JapanesePost = ''JapanesePost''"
| "DecoderType_name MaxiCode = ''MaxiCode''"

text \<open>The enumerators of \<open>DecoderType\<close> in declaration order: position is ordinal value.\<close>

definition all_DecoderTypes :: "DecoderType list" where
  "all_DecoderTypes =
     [Aztec, AztecCompact, QR, QRMicro, Code128, Code93, Code39,
      Codabar, Code11, Msi, UpcA, UpcE, UpcE1, Ean13, Ean8,
      PDF417, PDF417Micro, Datamatrix, Code25, Interleaved25, ITF14,
      IATA25, Matrix25, Datalogic25, COOP25, Code32, Telepen,
      Dotcode, IDDocument, Databar14,
      DatabarLimited, DatabarExpanded, PostalIMB, Postnet, Planet,
      AustralianPost, RoyalMail, KIX, JapanesePost, MaxiCode]"

text \<open>
  \<open>static_cast<DecoderType>(code)\<close> keeps the integer; it names an enumerator only when
  it is an ordinal of the enumeration.
\<close>

definition DecoderType_of_value :: "int32 \<Rightarrow> DecoderType option" where
  "DecoderType_of_value v =
     (if 0 \<le> sint v \<and> nat (sint v) < length all_DecoderTypes
      then Some (all_DecoderTypes ! nat (sint v)) else None)"

section \<open>SpecificConfigs.hpp: the configuration classes\<close>

datatype error = NotInitialized | ValidationError string | EngineError string

datatype ChecksumType = Disabled | Enabled
datatype Code11_ChecksumType = Code11_Disabled | Code11_Single | Code11_Double
datatype Code39_ChecksumType = Code39_Disabled | Code39_Enabled
datatype Msi_ChecksumType =
  Msi_Disabled | Mod10 | Mod11 | Mod1010 | Mod1110 | Mod11IBM | Mod1110IBM

record SpecificConfig =
  enabled :: bool
  expectedCount :: int32
  minimumLength :: int32
  maximumLength :: int32
  decoderType :: DecoderType
  configTypeName :: string

text \<open>
  \<open>SpecificConfig::SetLengthRange\<close>. A \<open>throw std::invalid_argument\<close> is the left
  injection, with the object as it was; the stores and \<open>return 0\<close> are the right one.
  It is a member of the base class, so it is defined on every extension of the record.
\<close>

definition SetLengthRange ::
  "'a SpecificConfig_scheme \<Rightarrow> int32 \<Rightarrow> int32 \<Rightarrow> (error + int32) \<times> 'a SpecificConfig_scheme"
where
  "SetLengthRange this mn mx =
     (if 0 \<le> sint mn \<and> 0 \<le> sint mx then
        (if 0 < sint mn \<and> 0 < sint mx \<and> sint mx < sint mn then
           (Inl (ValidationError ''Maximum length can't be smaller than minimum''), this)
         else (Inr 0, this\<lparr>minimumLength := mn, maximumLength := mx\<rparr>))
      else (Inl (ValidationError ''Length must be positive number''), this))"


text \<open>
  The members each derived class adds to \<open>SpecificConfig\<close>, one constructor per class:
  \<open>checksumType\<close> (or \<open>masterChecksumType\<close> of \<open>IDDocumentConfig\<close>), \<open>dpmMode\<close>,
  \<open>multiPartMerge\<close>, \<open>expandToUPCA\<close>.
\<close>

datatype Derived =
    Code11Config Code11_ChecksumType
  | Code39Config Code39_ChecksumType
  | TelepenConfig
  | PostalIMBConfig
  | PostnetConfig
  | PlanetConfig
  | AustralianPostConfig
  | RoyalMailConfig
  | JapanesePostConfig
  | KIXConfig
  | DotcodeConfig
  | Code32Config
  | MsiConfig Msi_ChecksumType
  | Code25Config ChecksumType
  | IATA25Config ChecksumType
  | Matrix25Config ChecksumType
  | Datalogic25Config ChecksumType
  | COOP25Config ChecksumType
  | Interleaved25Config ChecksumType
  | ITF14Config
  | AztecConfig
  | AztecCompactConfig
  | MaxiCodeConfig
  | DatamatrixConfig int32
  | QRConfig int32 bool
  | QRMicroConfig int32
  | Code128Config
  | Code93Config
  | CodabarConfig
  | UpcAConfig
  | UpcEConfig bool
  | UpcE1Config bool
  | Ean13Config
  | Ean8Config
  | PDF417Config
  | PDF417MicroConfig
  | Databar14Config
  | DatabarLimitedConfig
  | DatabarExpandedConfig
  | IDDocumentConfig ChecksumType

record SymbologyConfig = SpecificConfig +
  derived :: Derived

text \<open>
  Modelled from the spec: \<open>SpecificConfig::SpecificConfig(DecoderType)\<close> is declared in the
  header (line 229) and defined in the SDK library. The spec's Construct(decoderType)
  initializes enabled = false, expectedCount = 0 and binds the decoder type; lengths
  are unconstrained, which is \<open>LengthType::Unlimited = 0\<close>. The type name is the empty
  \<open>std::string\<close> until the derived constructor assigns it.
\<close>

definition SpecificConfig_ctor :: "DecoderType \<Rightarrow> SpecificConfig" where
  "SpecificConfig_ctor dt =
     \<lparr>enabled = False, expectedCount = 0, minimumLength = 0, maximumLength = 0,
      decoderType = dt, configTypeName = []\<rparr>"

text \<open>A derived object: the base subobject followed by the derived members.\<close>

definition derive :: "SpecificConfig \<Rightarrow> Derived \<Rightarrow> SymbologyConfig" where
  "derive b d =
     \<lparr>enabled = enabled b, expectedCount = expectedCount b,
      minimumLength = minimumLength b, maximumLength = maximumLength b,
      decoderType = decoderType b, configTypeName = configTypeName b, derived = d\<rparr>"

text \<open>
  The constructors of the derived classes: the base constructor, the default member
  initializers, then the constructor body.
\<close>

definition new_Code11Config :: "DecoderType \<Rightarrow> SymbologyConfig" where
  "new_Code11Config dt =
     (derive (SpecificConfig_ctor dt) (Code11Config Code11_Disabled))\<lparr>configTypeName := ''Code 11''\<rparr>"

definition new_Code39Config :: "DecoderType \<Rightarrow> SymbologyConfig" where
  "new_Code39Config dt =
     (derive (SpecificConfig_ctor dt) (Code39Config Code39_Disabled))\<lparr>configTypeName := ''Code 39''\<rparr>"

definition new_TelepenConfig :: "DecoderType \<Rightarrow> SymbologyConfig" where
  "new_TelepenConfig dt =
     (derive (SpecificConfig_ctor dt) TelepenConfig)\<lparr>configTypeName := ''Telepen''\<rparr>"

definition new_PostalIMBConfig :: "DecoderType \<Rightarrow> SymbologyConfig" where
  "new_PostalIMBConfig dt =
     (derive (SpecificConfig_ctor dt) PostalIMBConfig)\<lparr>configTypeName := ''Intelligent Mail''\<rparr>"

definition new_PostnetConfig :: "DecoderType \<Rightarrow> SymbologyConfig" where
  "new_PostnetConfig dt =
     (derive (SpecificConfig_ctor dt) PostnetConfig)\<lparr>configTypeName := ''Postnet''\<rparr>"

definition new_PlanetConfig :: "DecoderType \<Rightarrow> SymbologyConfig" where
  "new_PlanetConfig dt =
     (derive (SpecificConfig_ctor dt) PlanetConfig)\<lparr>configTypeName := ''Planet''\<rparr>"

definition new_AustralianPostConfig :: "DecoderType \<Rightarrow> SymbologyConfig" where
  "new_AustralianPostConfig dt =
     (derive (SpecificConfig_ctor dt) AustralianPostConfig)\<lparr>configTypeName := ''Australian Post''\<rparr>"

definition new_RoyalMailConfig :: "DecoderType \<Rightarrow> SymbologyConfig" where
  "new_RoyalMailConfig dt =
     (derive (SpecificConfig_ctor dt) RoyalMailConfig)\<lparr>configTypeName := ''Royal Mail''\<rparr>"

definition new_JapanesePostConfig :: "DecoderType \<Rightarrow> SymbologyConfig" where
  "new_JapanesePostConfig dt =
     (derive (SpecificConfig_ctor dt) JapanesePostConfig)\<lparr>configTypeName := ''Japanese Post''\<rparr>"

definition new_KIXConfig :: "DecoderType \<Rightarrow> SymbologyConfig" where
  "new_KIXConfig dt =
     (derive (SpecificConfig_ctor dt) KIXConfig)\<lparr>configTypeName := ''PostNL KIX''\<rparr>"

definition new_DotcodeConfig :: "DecoderType \<Rightarrow> SymbologyConfig" where
  "new_DotcodeConfig dt =
     (derive (SpecificConfig_ctor dt) DotcodeConfig)\<lparr>configTypeName := ''Dotcode''\<rparr>"

definition new_Code32Config :: "DecoderType \<Rightarrow> SymbologyConfig" where
  "new_Code32Config dt =
     (derive (SpecificConfig_ctor dt) Code32Config)\<lparr>configTypeName := ''Code 32''\<rparr>"

definition new_MsiConfig :: "DecoderType \<Rightarrow> SymbologyConfig" where
  "new_MsiConfig dt =
     (derive (SpecificConfig_ctor dt) (MsiConfig Mod10))\<lparr>configTypeName := ''MSI'', minimumLength := 5\<rparr>"

definition new_Code25Config :: "DecoderType \<Rightarrow> SymbologyConfig" where
  "new_Code25Config dt =
     (derive (SpecificConfig_ctor dt) (Code25Config Disabled))\<lparr>configTypeName := ''Code 25''\<rparr>"

definition new_IATA25Config :: "DecoderType \<Rightarrow> SymbologyConfig" where
  "new_IATA25Config dt =
     (derive (SpecificConfig_ctor dt) (IATA25Config Disabled))\<lparr>configTypeName := ''IATA 25''\<rparr>"

definition new_Matrix25Config :: "DecoderType \<Rightarrow> SymbologyConfig" where
  "new_Matrix25Config dt =
     (derive (SpecificConfig_ctor dt) (Matrix25Config Disabled))\<lparr>configTypeName := ''Matrix 25''\<rparr>"

definition new_Datalogic25Config :: "DecoderType \<Rightarrow> SymbologyConfig" where
  "new_Datalogic25Config dt =
     (derive (SpecificConfig_ctor dt) (Datalogic25Config Disabled))\<lparr>configTypeName := ''Datalogic 25''\<rparr>"

definition new_COOP25Config :: "DecoderType \<Rightarrow> SymbologyConfig" where
  "new_COOP25Config dt =
     (derive (SpecificConfig_ctor dt) (COOP25Config Disabled))\<lparr>configTypeName := ''COOP 25''\<rparr>"

definition new_Interleaved25Config :: "DecoderType \<Rightarrow> SymbologyConfig" where
  "new_Interleaved25Config dt =
     (derive (SpecificConfig_ctor dt) (Interleaved25Config Disabled))\<lparr>configTypeName := ''Interleaved 2 of 5''\<rparr>"

definition new_ITF14Config :: "DecoderType \<Rightarrow> SymbologyConfig" where
  "new_ITF14Config dt =
     (derive (SpecificConfig_ctor dt) ITF14Config)\<lparr>configTypeName := ''ITF 14''\<rparr>"

definition new_AztecConfig :: "DecoderType \<Rightarrow> SymbologyConfig" where
  "new_AztecConfig dt =
     (derive (SpecificConfig_ctor dt) AztecConfig)\<lparr>configTypeName := ''Aztec''\<rparr>"

definition new_AztecCompactConfig :: "DecoderType \<Rightarrow> SymbologyConfig" where
  "new_AztecCompactConfig dt =
     (derive (SpecificConfig_ctor dt) AztecCompactConfig)\<lparr>configTypeName := ''Aztec Compact''\<rparr>"

definition new_MaxiCodeConfig :: "DecoderType \<Rightarrow> SymbologyConfig" where
  "new_MaxiCodeConfig dt =
     (derive (SpecificConfig_ctor dt) MaxiCodeConfig)\<lparr>configTypeName := ''MaxiCode''\<rparr>"

definition new_DatamatrixConfig :: "DecoderType \<Rightarrow> SymbologyConfig" where
  "new_DatamatrixConfig dt =
     (derive (SpecificConfig_ctor dt) (DatamatrixConfig 0))\<lparr>configTypeName := ''Data Matrix''\<rparr>"

definition new_QRConfig :: "DecoderType \<Rightarrow> SymbologyConfig" where
  "new_QRConfig dt =
     (derive (SpecificConfig_ctor dt) (QRConfig 0 False))\<lparr>configTypeName := ''QR''\<rparr>"

definition new_QRMicroConfig :: "DecoderType \<Rightarrow> SymbologyConfig" where
  "new_QRMicroConfig dt =
     (derive (SpecificConfig_ctor dt) (QRMicroConfig 0))\<lparr>configTypeName := ''QR Micro''\<rparr>"

definition new_Code128Config :: "DecoderType \<Rightarrow> SymbologyConfig" where
  "new_Code128Config dt =
     (derive (SpecificConfig_ctor dt) Code128Config)\<lparr>configTypeName := ''Code 128''\<rparr>"

definition new_Code93Config :: "DecoderType \<Rightarrow> SymbologyConfig" where
  "new_Code93Config dt =
     (derive (SpecificConfig_ctor dt) Code93Config)\<lparr>configTypeName := ''Code 93''\<rparr>"

definition new_CodabarConfig :: "DecoderType \<Rightarrow> SymbologyConfig" where
  "new_CodabarConfig dt =
     (derive (SpecificConfig_ctor dt) CodabarConfig)\<lparr>configTypeName := ''Codabar'', minimumLength := 4\<rparr>"

definition new_UpcAConfig :: "DecoderType \<Rightarrow> SymbologyConfig" where
  "new_UpcAConfig dt =
     (derive (SpecificConfig_ctor dt) UpcAConfig)\<lparr>configTypeName := ''Upc-A''\<rparr>"

definition new_UpcEConfig :: "DecoderType \<Rightarrow> SymbologyConfig" where
  "new_UpcEConfig dt =
     (derive (SpecificConfig_ctor dt) (UpcEConfig False))\<lparr>configTypeName := ''Upc-E''\<rparr>"

definition new_UpcE1Config :: "DecoderType \<Rightarrow> SymbologyConfig" where
  "new_UpcE1Config dt =
     (derive (SpecificConfig_ctor dt) (UpcE1Config False))\<lparr>configTypeName := ''Upc-E1''\<rparr>"

definition new_Ean13Config :: "DecoderType \<Rightarrow> SymbologyConfig" where
  "new_Ean13Config dt =
     (derive (SpecificConfig_ctor dt) Ean13Config)\<lparr>configTypeName := ''Ean-13''\<rparr>"

definition new_Ean8Config :: "DecoderType \<Rightarrow> SymbologyConfig" where
  "new_Ean8Config dt =
     (derive (SpecificConfig_ctor dt) Ean8Config)\<lparr>configTypeName := ''Ean-8''\<rparr>"

definition new_PDF417Config :: "DecoderType \<Rightarrow> SymbologyConfig" where
  "new_PDF417Config dt =
     (derive (SpecificConfig_ctor dt) PDF417Config)\<lparr>configTypeName := ''PDF 417''\<rparr>"

definition new_PDF417MicroConfig :: "DecoderType \<Rightarrow> SymbologyConfig" where
  "new_PDF417MicroConfig dt =
     (derive (SpecificConfig_ctor dt) PDF417MicroConfig)\<lparr>configTypeName := ''PDF 417 Micro''\<rparr>"

definition new_Databar14Config :: "DecoderType \<Rightarrow> SymbologyConfig" where
  "new_Databar14Config dt =
     (derive (SpecificConfig_ctor dt) Databar14Config)\<lparr>configTypeName := ''Databar 14''\<rparr>"

definition new_DatabarLimitedConfig :: "DecoderType \<Rightarrow> SymbologyConfig" where
  "new_DatabarLimitedConfig dt =
     (derive (SpecificConfig_ctor dt) DatabarLimitedConfig)\<lparr>configTypeName := ''Databar Limited''\<rparr>"

definition new_DatabarExpandedConfig :: "DecoderType \<Rightarrow> SymbologyConfig" where
  "new_DatabarExpandedConfig dt =
     (derive (SpecificConfig_ctor dt) DatabarExpandedConfig)\<lparr>configTypeName := ''Databar Expanded''\<rparr>"

definition new_IDDocumentConfig :: "DecoderType \<Rightarrow> SymbologyConfig" where
  "new_IDDocumentConfig dt =
     (derive (SpecificConfig_ctor dt) (IDDocumentConfig Disabled))\<lparr>configTypeName := ''ID Document''\<rparr>"

text \<open>The constructors of every class other than \<open>MsiConfig\<close> and \<open>CodabarConfig\<close>.\<close>

definition other_constructors :: "(DecoderType \<Rightarrow> SymbologyConfig) list" where
  "other_constructors =
     [new_Code11Config, new_Code39Config, new_TelepenConfig, new_PostalIMBConfig,
      new_PostnetConfig, new_PlanetConfig, new_AustralianPostConfig,
      new_RoyalMailConfig, new_JapanesePostConfig, new_KIXConfig, new_DotcodeConfig,
      new_Code32Config, new_Code25Config, new_IATA25Config, new_Matrix25Config,
      new_Datalogic25Config, new_COOP25Config, new_Interleaved25Config,
      new_ITF14Config, new_AztecConfig, new_AztecCompactConfig, new_MaxiCodeConfig,
      new_DatamatrixConfig, new_QRConfig, new_QRMicroConfig, new_Code128Config,
      new_Code93Config, new_UpcAConfig, new_UpcEConfig, new_UpcE1Config,
      new_Ean13Config, new_Ean8Config, new_PDF417Config, new_PDF417MicroConfig,
      new_Databar14Config, new_DatabarLimitedConfig, new_DatabarExpandedConfig,
      new_IDDocumentConfig]"

text \<open>The checksum member of a configuration, where its class has one, is at Disabled.\<close>

fun checksum_disabled :: "Derived \<Rightarrow> bool" where
  "checksum_disabled (Code11Config c) = (c = Code11_Disabled)"
| "checksum_disabled (Code39Config c) = (c = Code39_Disabled)"
| "checksum_disabled (MsiConfig c) = (c = Msi_Disabled)"
| "checksum_disabled (Code25Config c) = (c = Disabled)"
| "checksum_disabled (IATA25Config c) = (c = Disabled)"
| "checksum_disabled (Matrix25Config c) = (c = Disabled)"
| "checksum_disabled (Datalogic25Config c) = (c = Disabled)"
| "checksum_disabled (COOP25Config c) = (c = Disabled)"
| "checksum_disabled (Interleaved25Config c) = (c = Disabled)"
| "checksum_disabled (IDDocumentConfig c) = (c = Disabled)"
| "checksum_disabled _ = True"

definition unconstrained_defaults :: "SymbologyConfig \<Rightarrow> bool" where
  "unconstrained_defaults c =
     (checksum_disabled (derived c) \<and> minimumLength c = 0 \<and> maximumLength c = 0)"


section \<open>The SDK interface used by barkoder\_node.cpp\<close>

text \<open>
  \<open>Rect\<close> of SpecificConfigs.hpp. A \<open>float\<close> is modelled by the real number it denotes;
  the code stores these values and does no arithmetic on them.
\<close>

record Rect =
  rect_left :: real
  rect_top :: real
  rect_width :: real
  rect_height :: real

definition Rect_default :: Rect where
  "Rect_default = \<lparr>rect_left = 0, rect_top = 0, rect_width = 100, rect_height = 100\<rparr>"

definition Rect_ctor :: "real \<Rightarrow> real \<Rightarrow> real \<Rightarrow> real \<Rightarrow> Rect" where
  "Rect_ctor l t w h = \<lparr>rect_left = l, rect_top = t, rect_width = w, rect_height = h\<rparr>"

text \<open>
  Modelled from the spec: class \<open>Config\<close> of Config.hpp, which is not among the sources.
  The spec's ConfigRegistry is one configuration slot per DecoderType, always present,
  plus the scan settings: decoding speed, region of interest and maximum-results cap.
  \<open>decodingSpeed\<close> holds the integer value of the enumeration, since the code stores
  the result of a \<open>static_cast\<close> from \<open>int\<close> in it.
\<close>

record Config =
  decoderConfigs :: "DecoderType \<Rightarrow> SymbologyConfig"
  decodingSpeed :: int32
  maximumResultsCount :: int32
  regionOfInterest :: Rect

text \<open>
  Modelled from the spec: \<open>ConfigResponse\<close> of Config.hpp. The spec's
  InitializeWithLicenseKey yields a discriminated result: a usable registry handle with a
  status message, or an error state with a diagnostic message and no handle.
\<close>

datatype ConfigResponse = Response_Success string Config | Response_Error string

text \<open>
  Modelled from the spec: \<open>Config::SetEnabledDecoders\<close>. Every DecoderType in the list
  is marked enabled and every other one disabled; a value that is no DecoderType is
  rejected with a validation error and nothing is applied. The argument is the list of
  integer values held by the \<open>std::vector<DecoderType>\<close>.
\<close>

definition Config_SetEnabledDecoders :: "Config \<Rightarrow> int32 list \<Rightarrow> error + Config" where
  "Config_SetEnabledDecoders cfg ds =
     (if list_all (\<lambda>d. DecoderType_of_value d \<noteq> None) ds then
        Inr (cfg\<lparr>decoderConfigs := (\<lambda>t. (decoderConfigs cfg t)
                \<lparr>enabled := (Some t \<in> set (map DecoderType_of_value ds))\<rparr>)\<rparr>)
      else Inl (ValidationError ''Unknown decoder type''))"

text \<open>
  Modelled from the spec: \<open>Config::SetRegionOfInterest\<close> stores the four values and
  rejects none.
\<close>

definition Config_SetRegionOfInterest :: "Config \<Rightarrow> real \<Rightarrow> real \<Rightarrow> real \<Rightarrow> real \<Rightarrow> Config" where
  "Config_SetRegionOfInterest cfg l t w h = cfg\<lparr>regionOfInterest := Rect_ctor l t w h\<rparr>"

text \<open>
  \<open>BaseResult\<close> of Barkoder.hpp, by the three members the code reads. \<open>extra\<close> is the
  sequence of key/value pairs in the order the range-for loop visits them.
\<close>

record BaseResult =
  barcodeTypeName :: string
  textualData :: string
  extra :: "(string \<times> string) list"

text \<open>
  The two external calls are parameters of the model. Each returns the \<open>what()\<close> of a
  \<open>std::exception\<close> on the left, or its value on the right.
\<close>

type_synonym InitializeWithLicenseKey = "string \<Rightarrow> string + ConfigResponse"
type_synonym DecodeImageMemory =
  "Config \<Rightarrow> 8 word list \<Rightarrow> int32 \<Rightarrow> int32 \<Rightarrow> string + BaseResult list"

datatype BKGlobalOption = BKGlobalOption_SetMaximumThreads | BKGlobalOption_UseGPU

section \<open>cJSON documents\<close>

text \<open>
  A cJSON item, and the calls of the library the code makes: an object or array keeps
  its children in the order they were added, and adding never replaces a child.

  The library takes every name and every string as a \<open>const char *\<close>, and the code
  passes \<open>std::string::c_str()\<close>: what the library copies is the C string at that
  address, the characters before the first NUL.
\<close>

definition c_str :: "string \<Rightarrow> string" where
  "c_str s = takeWhile (\<lambda>c. c \<noteq> CHR 0x00) s"

datatype cJSON =
    cJSON_Number int
  | cJSON_String string
  | cJSON_Array "cJSON list"
  | cJSON_Object "(string \<times> cJSON) list"

definition cJSON_CreateObject :: cJSON where
  "cJSON_CreateObject = cJSON_Object []"

definition cJSON_CreateArray :: cJSON where
  "cJSON_CreateArray = cJSON_Array []"

fun cJSON_AddItemToObject :: "cJSON \<Rightarrow> string \<Rightarrow> cJSON \<Rightarrow> cJSON" where
  "cJSON_AddItemToObject (cJSON_Object fs) name item =
     cJSON_Object (fs @ [(c_str name, item)])"
| "cJSON_AddItemToObject other name item = other"

fun cJSON_AddItemToArray :: "cJSON \<Rightarrow> cJSON \<Rightarrow> cJSON" where
  "cJSON_AddItemToArray (cJSON_Array xs) item = cJSON_Array (xs @ [item])"
| "cJSON_AddItemToArray other item = other"

definition cJSON_AddNumberToObject :: "cJSON \<Rightarrow> string \<Rightarrow> int32 \<Rightarrow> cJSON" where
  "cJSON_AddNumberToObject obj name n = cJSON_AddItemToObject obj name (cJSON_Number (sint n))"

definition cJSON_AddStringToObject :: "cJSON \<Rightarrow> string \<Rightarrow> string \<Rightarrow> cJSON" where
  "cJSON_AddStringToObject obj name s =
     cJSON_AddItemToObject obj name (cJSON_String (c_str s))"

section \<open>barkoder\_node.cpp\<close>

text \<open>
  A JavaScript argument. A number is given by what the two accessors the code calls
  return on it.
\<close>

datatype napi_value =
    IsNumber: NapiNumber (Int32Value: int32) (FloatValue: real)
  | IsString: NapiString (Utf8Value: string)
  | IsBuffer: NapiBuffer (Data: "8 word list")
  | IsArray: NapiArray (elements: "napi_value list")
  | NapiOther

text \<open>
  The module's state: the global \<open>config\<close> pointer (\<open>None\<close> is \<open>nullptr\<close>) and the
  process-wide options set through \<open>Config::SetGlobalOption\<close>.
\<close>

record module_state =
  config :: "Config option"
  globalOptions :: "BKGlobalOption \<Rightarrow> int32 option"

definition initial_state :: module_state where
  "initial_state = \<lparr>config = None, globalOptions = (\<lambda>opt. None)\<rparr>"

text \<open>
  Modelled from the spec: \<open>Config::SetGlobalOption\<close> is a plain setter of a
  process-wide option.
\<close>

definition SetGlobalOption :: "module_state \<Rightarrow> BKGlobalOption \<Rightarrow> int32 \<Rightarrow> module_state" where
  "SetGlobalOption st opt v = st\<lparr>globalOptions := (globalOptions st)(opt := Some v)\<rparr>"

text \<open>
  What a call returns. Every function returns a string \<open>"ERROR: ..."\<close> or
  \<open>"SUCCESS: ..."\<close> (\<open>decodeImage\<close>: the printed document). An error is the left
  injection, classified as the spec does and carrying the text after the prefix; a
  success is the right one, carrying the values the text is built from.
\<close>

datatype success =
    Initialized string
  | EnabledDecoders nat
  | DecodingSpeedSet int32
  | RegionOfInterestSet real real real real
  | Decoded cJSON

type_synonym response = "error + success"

fun error_text :: "error \<Rightarrow> string" where
  "error_text NotInitialized = ''ERROR: SDK not initialized''"
| "error_text (ValidationError m) = ''ERROR: '' @ m"
| "error_text (EngineError m) = ''ERROR: '' @ m"

definition Initialize ::
  "InitializeWithLicenseKey \<Rightarrow> module_state \<Rightarrow> napi_value list \<Rightarrow> response \<times> module_state"
where
  "Initialize sdk st info =
     (if length info < 1 \<or> \<not> IsString (info ! 0) then
        (Inl (ValidationError ''License key string expected''), st)
      else
        (case sdk (Utf8Value (info ! 0)) of
           Inl what \<Rightarrow> (Inl (EngineError (''Exception during initialization: '' @ what)), st)
         | Inr (Response_Error message) \<Rightarrow> (Inl (EngineError message), st)
         | Inr (Response_Success message cfg) \<Rightarrow>
             (let st1 = st\<lparr>config := Some cfg\<rparr>;
                  st2 = SetGlobalOption st1 BKGlobalOption_SetMaximumThreads 1;
                  st3 = SetGlobalOption st2 BKGlobalOption_UseGPU 0;
                  st4 = st3\<lparr>config := map_option
                          (\<lambda>c. c\<lparr>decodingSpeed := DecodingSpeed_value Normal\<rparr>) (config st3)\<rparr>;
                  st5 = st4\<lparr>config := map_option
                          (\<lambda>c. c\<lparr>maximumResultsCount := 1\<rparr>) (config st4)\<rparr>
              in (Inr (Initialized message), st5))))"

definition IsInitialized :: "module_state \<Rightarrow> bool" where
  "IsInitialized st = (config st \<noteq> None)"

text \<open>The loop of \<open>SetEnabledDecoders\<close>: elements that are no numbers are skipped.\<close>

fun enabledDecoders_of :: "napi_value list \<Rightarrow> int32 list" where
  "enabledDecoders_of [] = []"
| "enabledDecoders_of (element # rest) =
     (if IsNumber element then Int32Value element # enabledDecoders_of rest
      else enabledDecoders_of rest)"

definition SetEnabledDecoders ::
  "module_state \<Rightarrow> napi_value list \<Rightarrow> response \<times> module_state"
where
  "SetEnabledDecoders st info =
     (case config st of
        None \<Rightarrow> (Inl NotInitialized, st)
      | Some cfg \<Rightarrow>
          if length info < 1 \<or> \<not> IsArray (info ! 0) then
            (Inl (ValidationError ''Array of decoder types expected''), st)
          else
            (let enabledDecoders = enabledDecoders_of (elements (info ! 0)) in
             case Config_SetEnabledDecoders cfg enabledDecoders of
               Inl e \<Rightarrow> (Inl e, st)
             | Inr cfg' \<Rightarrow>
                 (Inr (EnabledDecoders (length enabledDecoders)), st\<lparr>config := Some cfg'\<rparr>)))"

definition SetDecodingSpeed ::
  "module_state \<Rightarrow> napi_value list \<Rightarrow> response \<times> module_state"
where
  "SetDecodingSpeed st info =
     (case config st of
        None \<Rightarrow> (Inl NotInitialized, st)
      | Some cfg \<Rightarrow>
          if length info < 1 \<or> \<not> IsNumber (info ! 0) then
            (Inl (ValidationError ''Speed integer expected''), st)
          else
            (let speed = Int32Value (info ! 0) in
             (Inr (DecodingSpeedSet speed), st\<lparr>config := Some (cfg\<lparr>decodingSpeed := speed\<rparr>)\<rparr>)))"

definition SetRegionOfInterest ::
  "module_state \<Rightarrow> napi_value list \<Rightarrow> response \<times> module_state"
where
  "SetRegionOfInterest st info =
     (case config st of
        None \<Rightarrow> (Inl NotInitialized, st)
      | Some cfg \<Rightarrow>
          if length info < 4 \<or> \<not> IsNumber (info ! 0) \<or> \<not> IsNumber (info ! 1)
             \<or> \<not> IsNumber (info ! 2) \<or> \<not> IsNumber (info ! 3) then
            (Inl (ValidationError ''Four numbers expected (left, top, width, height)''), st)
          else
            (let left = FloatValue (info ! 0); top = FloatValue (info ! 1);
                 width = FloatValue (info ! 2); height = FloatValue (info ! 3)
             in (Inr (RegionOfInterestSet left top width height),
                 st\<lparr>config := Some (Config_SetRegionOfInterest cfg left top width height)\<rparr>)))"

text \<open>
  The sub-document of one result: type name, textual data, then every pair of \<open>extra\<close>.
\<close>

definition add_extra :: "cJSON \<Rightarrow> (string \<times> string) list \<Rightarrow> cJSON" where
  "add_extra obj pairs =
     foldl (\<lambda>item pair. cJSON_AddStringToObject item (fst pair) (snd pair)) obj pairs"

text \<open>
  The three branches of \<open>DecodeImage\<close> on \<open>resultsCount\<close>, which is
  \<open>static_cast<int>(results.size())\<close>. The loop of the last branch runs \<open>i\<close> from 0 while
  \<open>i < resultsCount\<close>.
\<close>

definition results_to_JSON :: "BaseResult list \<Rightarrow> cJSON" where
  "results_to_JSON results =
     (let resultsCount = (word_of_nat (length results) :: int32) in
      if resultsCount = 0 then
        (let root = cJSON_CreateObject;
             root = cJSON_AddNumberToObject root ''resultsCount'' 0;
             root = cJSON_AddStringToObject root ''barcodeTypeName'' [];
             root = cJSON_AddStringToObject root ''textualData'' []
         in root)
      else if resultsCount = 1 then
        (let root = cJSON_CreateObject;
             root = cJSON_AddNumberToObject root ''resultsCount'' 1;
             root = cJSON_AddStringToObject root ''barcodeTypeName''
                      (barcodeTypeName (results ! 0));
             root = cJSON_AddStringToObject root ''textualData'' (textualData (results ! 0));
             root = add_extra root (extra (results ! 0))
         in root)
      else
        (let root = cJSON_CreateObject;
             root = cJSON_AddNumberToObject root ''resultsCount'' resultsCount;
             resultsArray = foldl
               (\<lambda>arr i.
                  let singleResult = cJSON_CreateObject;
                      singleResult = cJSON_AddStringToObject singleResult ''barcodeTypeName''
                                       (barcodeTypeName (results ! i));
                      singleResult = cJSON_AddStringToObject singleResult ''textualData''
                                       (textualData (results ! i));
                      singleResult = add_extra singleResult (extra (results ! i))
                  in cJSON_AddItemToArray arr singleResult)
               cJSON_CreateArray [0 ..< nat (sint resultsCount)];
             root = cJSON_AddItemToObject root ''results'' resultsArray
         in root))"

text \<open>
  \<open>DecodeImage\<close>. \<open>width * height\<close> is a product of two \<open>int\<close>s: a 32-bit product,
  taken to wrap around on overflow as the usual targets do (the language leaves signed
  overflow undefined). \<open>static_cast<size_t>\<close> of it is the sign-extending \<open>scast\<close>,
  and the comparison with \<open>bufferLength\<close> is unsigned.
\<close>

definition DecodeImage ::
  "DecodeImageMemory \<Rightarrow> module_state \<Rightarrow> napi_value list \<Rightarrow> response \<times> module_state"
where
  "DecodeImage engine st info =
     (case config st of
        None \<Rightarrow> (Inl NotInitialized, st)
      | Some cfg \<Rightarrow>
          if length info < 3 \<or> \<not> IsBuffer (info ! 0) \<or> \<not> IsNumber (info ! 1)
             \<or> \<not> IsNumber (info ! 2) then
            (Inl (ValidationError
               ''Buffer and two numbers expected (imageBuffer, width, height)''), st)
          else
            (let width = Int32Value (info ! 1); height = Int32Value (info ! 2);
                 imageData = Data (info ! 0);
                 bufferLength = (word_of_nat (length imageData) :: size_t)
             in if bufferLength < (scast (width * height) :: size_t) then
                  (Inl (ValidationError ''Buffer too small for specified dimensions''), st)
                else
                  (case engine cfg imageData width height of
                     Inl what \<Rightarrow> (Inl (EngineError what), st)
                   | Inr results \<Rightarrow> (Inr (Decoded (results_to_JSON results)), st))))"

text \<open>
  A history of calls. An event carries the arguments of the call and, for the two
  functions that call into the SDK, how the SDK answers that call.
\<close>

datatype event =
    is_initialize: Call_initialize "napi_value list" InitializeWithLicenseKey
  | Call_setEnabledDecoders "napi_value list"
  | Call_setDecodingSpeed "napi_value list"
  | Call_setRegionOfInterest "napi_value list"
  | Call_decodeImage "napi_value list" DecodeImageMemory

fun step :: "module_state \<Rightarrow> event \<Rightarrow> response \<times> module_state" where
  "step st (Call_initialize info sdk) = Initialize sdk st info"
| "step st (Call_setEnabledDecoders info) = SetEnabledDecoders st info"
| "step st (Call_setDecodingSpeed info) = SetDecodingSpeed st info"
| "step st (Call_setRegionOfInterest info) = SetRegionOfInterest st info"
| "step st (Call_decodeImage info engine) = DecodeImage engine st info"

fun run :: "module_state \<Rightarrow> event list \<Rightarrow> response list \<times> module_state" where
  "run st [] = ([], st)"
| "run st (e # es) =
     (case step st e of (r, st') \<Rightarrow> (case run st' es of (rs, st'') \<Rightarrow> (r # rs, st'')))"


text \<open>
  Modelled from the spec: the slots of a registry as the SDK creates it, one per
  DecoderType, each default-constructed by the class of that symbology.
\<close>

fun default_slots :: "DecoderType \<Rightarrow> SymbologyConfig" where
  "default_slots Aztec = new_AztecConfig Aztec"
| "default_slots AztecCompact = new_AztecCompactConfig AztecCompact"
| "default_slots QR = new_QRConfig QR"
| "default_slots QRMicro = new_QRMicroConfig QRMicro"
| "default_slots Code128 = new_Code128Config Code128"
| "default_slots Code93 = new_Code93Config Code93"
| "default_slots Code39 = new_Code39Config Code39"
| "default_slots Codabar = new_CodabarConfig Codabar"
| "default_slots Code11 = new_Code11Config Code11"
| "default_slots Msi = new_MsiConfig Msi"
| "default_slots UpcA = new_UpcAConfig UpcA"
| "default_slots UpcE = new_UpcEConfig UpcE"
| "default_slots UpcE1 = new_UpcE1Config UpcE1"
| "default_slots Ean13 = new_Ean13Config Ean13"
| "default_slots Ean8 = new_Ean8Config Ean8"
| "default_slots PDF417 = new_PDF417Config PDF417"
| "default_slots PDF417Micro = new_PDF417MicroConfig PDF417Micro"
| "default_slots Datamatrix = new_DatamatrixConfig Datamatrix"
| "default_slots Code25 = new_Code25Config Code25"
| "default_slots Interleaved25 = new_Interleaved25Config Interleaved25"
| "default_slots ITF14 = new_ITF14Config ITF14"
| "default_slots IATA25 = new_IATA25Config IATA25"
| "default_slots Matrix25 = new_Matrix25Config Matrix25"
| "default_slots Datalogic25 = new_Datalogic25Config Datalogic25"
| "default_slots COOP25 = new_COOP25Config COOP25"
| "default_slots Code32 = new_Code32Config Code32"
| "default_slots Telepen = new_TelepenConfig Telepen"
| "default_slots Dotcode = new_DotcodeConfig Dotcode"
| "default_slots IDDocument = new_IDDocumentConfig IDDocument"
| "default_slots Databar14 = new_Databar14Config Databar14"
| "default_slots DatabarLimited = new_DatabarLimitedConfig DatabarLimited"
| "default_slots DatabarExpanded = new_DatabarExpandedConfig DatabarExpanded"
| "default_slots PostalIMB = new_PostalIMBConfig PostalIMB"
| "default_slots Postnet = new_PostnetConfig Postnet"
| "default_slots Planet = new_PlanetConfig Planet"
| "default_slots AustralianPost = new_AustralianPostConfig AustralianPost"
| "default_slots RoyalMail = new_RoyalMailConfig RoyalMail"
| "default_slots KIX = new_KIXConfig KIX"
| "default_slots JapanesePost = new_JapanesePostConfig JapanesePost"
| "default_slots MaxiCode = new_MaxiCodeConfig MaxiCode"

text \<open>
  A registry with these slots and some scan settings, and the module state that holds
  it with the process options \<open>Initialize\<close> sets: the concrete inputs of the examples
  that follow the theorems.
\<close>

definition sample_Config :: Config where
  "sample_Config =
     \<lparr>decoderConfigs = default_slots, decodingSpeed = DecodingSpeed_value Slow,
      maximumResultsCount = 5, regionOfInterest = Rect_default\<rparr>"

definition licensed_state :: module_state where
  "licensed_state =
     \<lparr>config = Some sample_Config,
      globalOptions = (\<lambda>opt. None)(BKGlobalOption_SetMaximumThreads := Some 1,
                                     BKGlobalOption_UseGPU := Some 0)\<rparr>"

text \<open>
  The response document in the spec's words, with the two readings the code forces.
  The fields of one result are its type name, its textual data and each auxiliary pair,
  every string up to its first NUL. The count \<open>N\<close> is the length of the sequence read
  as a 32-bit signed integer, which is the length itself below \<open>2 ^ 31\<close>. The document
  has one of three shapes: for \<open>N = 0\<close>, for \<open>N = 1\<close> and for every other \<open>N\<close>, where
  the sub-documents are those of the first \<open>N\<close> results.
\<close>

definition result_fields :: "BaseResult \<Rightarrow> (string \<times> cJSON) list" where
  "result_fields r =
     (''barcodeTypeName'', cJSON_String (c_str (barcodeTypeName r)))
     # (''textualData'', cJSON_String (c_str (textualData r)))
     # map (\<lambda>pair. (c_str (fst pair), cJSON_String (c_str (snd pair)))) (extra r)"

definition response_count :: "BaseResult list \<Rightarrow> int" where
  "response_count results = (int (length results) + 2 ^ 31) mod 2 ^ 32 - 2 ^ 31"

definition response_document :: "BaseResult list \<Rightarrow> cJSON" where
  "response_document results =
     (if response_count results = 0 then
        cJSON_Object [(''resultsCount'', cJSON_Number 0),
                      (''barcodeTypeName'', cJSON_String []),
                      (''textualData'', cJSON_String [])]
      else if response_count results = 1 then
        cJSON_Object ((''resultsCount'', cJSON_Number 1) # result_fields (hd results))
      else
        cJSON_Object
          [(''resultsCount'', cJSON_Number (response_count results)),
           (''results'', cJSON_Array
              (map (\<lambda>r. cJSON_Object (result_fields r))
                 (take (nat (response_count results)) results)))])"

text \<open>
  An element of the array passed to \<open>setEnabledDecoders\<close> is a decoder code when it is a
  number whose value is one of the 40 ordinals of \<open>DecoderType\<close>. The value of a number
  is read from its \<open>FloatValue\<close>, which is exact on this range.
\<close>

definition decoder_code :: "napi_value \<Rightarrow> bool" where
  "decoder_code e =
     (IsNumber e \<and> 0 \<le> FloatValue e \<and> FloatValue e < 40
      \<and> FloatValue e = of_int \<lfloor>FloatValue e\<rfloor>)"

section \<open>Length ranges\<close>

text \<open>
  C1. For every configuration object and all 32-bit integers min and max,
  SetLengthRange succeeds, storing min as minimumLength and max as maximumLength, if and
  only if min >= 0, max >= 0 and (min = 0 or max = 0 or max >= min); otherwise it fails
  with a validation error and the object, hence both stored bounds, is what it was.
\<close>

theorem SetLengthRange_iff:
  "SetLengthRange this mn mx =
     (if 0 \<le> sint mn \<and> 0 \<le> sint mx \<and> (sint mn = 0 \<or> sint mx = 0 \<or> sint mn \<le> sint mx)
      then (Inr 0, this\<lparr>minimumLength := mn, maximumLength := mx\<rparr>)
      else (Inl (ValidationError
             (if 0 \<le> sint mn \<and> 0 \<le> sint mx
              then ''Maximum length can't be smaller than minimum''
              else ''Length must be positive number'')), this))"
  by (auto simp add: SetLengthRange_def)


section \<open>Defaults of the configuration classes\<close>

lemma other_constructors_defaults:
  "list_all (\<lambda>ctor. unconstrained_defaults (ctor dt)) other_constructors"
  by (simp add: other_constructors_def unconstrained_defaults_def derive_def
      SpecificConfig_ctor_def
      new_Code11Config_def new_Code39Config_def new_TelepenConfig_def new_PostalIMBConfig_def new_PostnetConfig_def new_PlanetConfig_def new_AustralianPostConfig_def new_RoyalMailConfig_def new_JapanesePostConfig_def new_KIXConfig_def new_DotcodeConfig_def new_Code32Config_def new_Code25Config_def new_IATA25Config_def new_Matrix25Config_def new_Datalogic25Config_def new_COOP25Config_def new_Interleaved25Config_def new_ITF14Config_def new_AztecConfig_def new_AztecCompactConfig_def new_MaxiCodeConfig_def new_DatamatrixConfig_def new_QRConfig_def new_QRMicroConfig_def new_Code128Config_def new_Code93Config_def new_UpcAConfig_def new_UpcEConfig_def new_UpcE1Config_def new_Ean13Config_def new_Ean8Config_def new_PDF417Config_def new_PDF417MicroConfig_def new_Databar14Config_def new_DatabarLimitedConfig_def new_DatabarExpandedConfig_def new_IDDocumentConfig_def)

text \<open>
  C6. A default-constructed MsiConfig has checksumType Mod10; a default-constructed
  CodabarConfig has minimumLength 4; the constructor of every other class leaves the
  checksum member (where the class has one) at Disabled and both length bounds at zero.
\<close>

theorem default_configs:
  "derived (new_MsiConfig dt) = MsiConfig Mod10
   \<and> sint (minimumLength (new_CodabarConfig dt')) = 4
   \<and> list_all (\<lambda>ctor. unconstrained_defaults (ctor dt'')) other_constructors
   \<and> length other_constructors = 38"
  using other_constructors_defaults [of dt'']
  by (simp add: new_MsiConfig_def new_CodabarConfig_def derive_def other_constructors_def)

section \<open>The two enumerations\<close>

text \<open>The enumerator of BarcodeType written with the identifier of a DecoderType one.\<close>

lemma DecoderType_has_BarcodeType: "\<exists>b. BarcodeType_name b = DecoderType_name d"
  by (cases d; simp only: DecoderType_name.simps; rule exI; rule BarcodeType_name.simps)

lemma no_DecoderType_IDMRZ: "DecoderType_name d \<noteq> ''IDMRZ''"
  by (cases d) simp_all

lemma no_DecoderType_IDPicture: "DecoderType_name d \<noteq> ''IDPicture''"
  by (cases d) simp_all

lemma no_DecoderType_IDSignature: "DecoderType_name d \<noteq> ''IDSignature''"
  by (cases d) simp_all

lemma BarcodeType_has_DecoderType:
  "(\<exists>d. DecoderType_name d = BarcodeType_name b)
     = (b \<noteq> BT_IDMRZ \<and> b \<noteq> BT_IDPicture \<and> b \<noteq> BT_IDSignature)"
  by (cases b;
      simp add: no_DecoderType_IDMRZ no_DecoderType_IDPicture no_DecoderType_IDSignature;
      rule exI; rule DecoderType_name.simps)

text \<open>
  C7. Every enumerator of DecoderType has an enumerator of BarcodeType with the same
  identifier; a BarcodeType enumerator has a DecoderType one with its identifier exactly
  when it is none of IDMRZ, IDPicture and IDSignature, which exist in BarcodeType only.
\<close>

theorem DecoderType_BarcodeType_asymmetry:
  "(\<forall>d. \<exists>b. BarcodeType_name b = DecoderType_name d)
   \<and> (\<forall>b. (\<exists>d. DecoderType_name d = BarcodeType_name b)
            = (b \<noteq> BT_IDMRZ \<and> b \<noteq> BT_IDPicture \<and> b \<noteq> BT_IDSignature))
   \<and> length all_DecoderTypes = 40 \<and> distinct all_DecoderTypes"
  using DecoderType_has_BarcodeType BarcodeType_has_DecoderType
  by (simp add: all_DecoderTypes_def)

section \<open>DecodeImage on a buffer and two numbers\<close>

lemma licensed_config: "config licensed_state = Some sample_Config"
  by (simp add: licensed_state_def)

lemma uint_scast_size_t: "uint (scast (x::int32) :: size_t) = sint x mod 2 ^ 64"
  by (simp only: scast_eq uint_word_of_int) simp

lemma less_unat_iff: "(n < unat (X::size_t)) = (int n < uint X)"
  by (simp only: unat_eq_nat_uint zless_nat_eq_int_zless)

lemma sint_product: "sint (w * h :: int32) = (sint w * sint h + 2 ^ 31) mod 2 ^ 32 - 2 ^ 31"
  by (simp add: sint_word_mult signed_take_bit_eq_take_bit_shift take_bit_int_def)

lemma buffer_guard:
  assumes "n < 2 ^ 64"
  shows "((word_of_nat n :: size_t) < scast (w * h :: int32))
           = (int n < ((sint w * sint h + 2 ^ 31) mod 2 ^ 32 - 2 ^ 31) mod 2 ^ 64)"
proof -
  have "unat (word_of_nat n :: size_t) = n"
    using assms by (simp add: unat_of_nat)
  then have "((word_of_nat n :: size_t) < scast (w * h)) = (n < unat (scast (w * h) :: size_t))"
    by (simp add: word_less_nat_alt)
  also have "\<dots> = (int n < ((sint w * sint h + 2 ^ 31) mod 2 ^ 32 - 2 ^ 31) mod 2 ^ 64)"
    by (simp only: less_unat_iff uint_scast_size_t sint_product)
  finally show ?thesis .
qed

lemma DecodeImage_args:
  assumes "config st = Some cfg"
  shows "DecodeImage engine st
           (NapiBuffer imageData # NapiNumber width fw # NapiNumber height fh # rest) =
         (if (word_of_nat (length imageData) :: size_t) < scast (width * height) then
            (Inl (ValidationError ''Buffer too small for specified dimensions''), st)
          else
            (case engine cfg imageData width height of
               Inl what \<Rightarrow> (Inl (EngineError what), st)
             | Inr results \<Rightarrow> (Inr (Decoded (results_to_JSON results)), st)))"
  using assms by (simp add: DecodeImage_def Let_def)

lemma DecodeImage_returns:
  assumes "config st = Some cfg"
    and "\<not> (word_of_nat (length imageData) :: size_t) < scast (width * height)"
    and "engine cfg imageData width height = Inr results"
  shows "DecodeImage engine st
           (NapiBuffer imageData # NapiNumber width fw # NapiNumber height fh # rest) =
         (Inr (Decoded (results_to_JSON results)), st)"
  using assms(2,3) by (simp add: DecodeImage_args [OF assms(1)])

lemma one_pixel_guard:
  "\<not> (word_of_nat (length [0 :: 8 word]) :: size_t) < scast (1 * 1 :: int32)"
  by simp

section \<open>The response document\<close>

lemma c_str_names:
  "c_str ''resultsCount'' = ''resultsCount''"
  "c_str ''barcodeTypeName'' = ''barcodeTypeName''"
  "c_str ''textualData'' = ''textualData''"
  "c_str ''results'' = ''results''"
  "c_str [] = []"
  by (simp_all add: c_str_def)

lemma add_extra_Object:
  "add_extra (cJSON_Object fs) pairs =
     cJSON_Object (fs @ map (\<lambda>pair. (c_str (fst pair), cJSON_String (c_str (snd pair)))) pairs)"
  unfolding add_extra_def
  by (induction pairs arbitrary: fs) (simp_all add: cJSON_AddStringToObject_def)

lemma single_result_fields:
  "add_extra
     (cJSON_AddStringToObject
        (cJSON_AddStringToObject cJSON_CreateObject ''barcodeTypeName'' (barcodeTypeName r))
        ''textualData'' (textualData r))
     (extra r) = cJSON_Object (result_fields r)"
  by (simp add: cJSON_CreateObject_def cJSON_AddStringToObject_def add_extra_Object
      result_fields_def c_str_names)

lemma add_items_Array:
  "foldl (\<lambda>arr i. cJSON_AddItemToArray arr (f i)) (cJSON_Array xs) is =
     cJSON_Array (xs @ map f is)"
  by (induction "is" arbitrary: xs) simp_all

lemma map_result_fields_take:
  assumes "n \<le> length results"
  shows "map (\<lambda>i. cJSON_Object (result_fields (results ! i))) [0 ..< n]
           = map (\<lambda>r. cJSON_Object (result_fields r)) (take n results)"
proof -
  have "take n results = take n (map (\<lambda>i. results ! i) [0 ..< length results])"
    by (simp only: map_nth)
  also have "\<dots> = map (\<lambda>i. results ! i) (take n [0 ..< length results])"
    by (simp only: take_map)
  also have "take n [0 ..< length results] = [0 ..< n]"
    using assms by (simp add: take_upt)
  finally have "take n results = map (\<lambda>i. results ! i) [0 ..< n]" .
  then show ?thesis by (simp only: map_map comp_def)
qed

lemma sint_resultsCount:
  "sint (word_of_nat (length results) :: int32) = response_count results"
proof -
  have "sint (word_of_nat (length results) :: int32)
          = sint (word_of_int (int (length results)) :: int32)"
    by simp
  also have "\<dots> = (int (length results) + 2 ^ 31) mod 2 ^ 32 - 2 ^ 31"
    by (simp only: int_word_sint) simp
  finally show ?thesis by (simp only: response_count_def)
qed

lemma resultsCount_eq_0:
  "((word_of_nat (length results) :: int32) = 0) = (response_count results = 0)"
proof -
  have "((word_of_nat (length results) :: int32) = 0)
          = (sint (word_of_nat (length results) :: int32) = sint (0 :: int32))"
    by (rule word_eq_iff_signed)
  then show ?thesis by (simp only: sint_resultsCount sint_0)
qed

lemma resultsCount_eq_1:
  "((word_of_nat (length results) :: int32) = 1) = (response_count results = 1)"
proof -
  have one: "sint (1 :: int32) = 1" by simp
  have "((word_of_nat (length results) :: int32) = 1)
          = (sint (word_of_nat (length results) :: int32) = sint (1 :: int32))"
    by (rule word_eq_iff_signed)
  then show ?thesis by (simp only: sint_resultsCount one)
qed

lemma response_count_le: "nat (response_count results) \<le> length results"
proof -
  have "(int (length results) + 2 ^ 31) mod 2 ^ 32 \<le> int (length results) + 2 ^ 31"
    by (rule zmod_le_nonneg_dividend) simp
  then have "response_count results \<le> int (length results)"
    by (simp add: response_count_def)
  then show ?thesis by simp
qed

lemma response_count_small:
  assumes "length results < 2 ^ 31"
  shows "response_count results = int (length results)"
proof -
  have "(int (length results) + 2 ^ 31) mod 2 ^ 32 = int (length results) + 2 ^ 31"
    using assms by (intro mod_pos_pos_trivial) simp_all
  then show ?thesis by (simp add: response_count_def)
qed

lemma response_count_nonempty:
  assumes "response_count results = 1"
  shows "results \<noteq> []"
  using assms by (auto simp add: response_count_def)

lemma results_to_JSON_document: "results_to_JSON results = response_document results"
proof -
  let ?N = "response_count results"
  consider (zero) "?N = 0" | (one) "?N = 1" | (many) "?N \<noteq> 0" "?N \<noteq> 1"
    by blast
  then show ?thesis
  proof cases
    case zero
    then show ?thesis
      unfolding results_to_JSON_def response_document_def
      by (simp only: Let_def resultsCount_eq_0 if_True)
         (simp add: cJSON_CreateObject_def cJSON_AddNumberToObject_def
            cJSON_AddStringToObject_def c_str_names)
  next
    case one
    then have c0: "(?N = 0) = False" and c1: "(?N = 1) = True" by simp_all
    have hd: "results ! 0 = hd results"
      using response_count_nonempty [OF one] by (simp add: hd_conv_nth)
    have "results_to_JSON results =
            add_extra
              (cJSON_AddStringToObject
                (cJSON_AddStringToObject
                  (cJSON_AddNumberToObject cJSON_CreateObject ''resultsCount'' 1)
                  ''barcodeTypeName'' (barcodeTypeName (hd results)))
                ''textualData'' (textualData (hd results)))
              (extra (hd results))"
      unfolding results_to_JSON_def
      by (simp only: Let_def resultsCount_eq_0 resultsCount_eq_1 c0 c1 if_True if_False hd)
    also have "\<dots> = cJSON_Object ((''resultsCount'', cJSON_Number 1) # result_fields (hd results))"
      by (simp add: cJSON_CreateObject_def cJSON_AddNumberToObject_def
          cJSON_AddStringToObject_def add_extra_Object result_fields_def c_str_names)
    finally show ?thesis
      by (simp only: response_document_def c0 c1 if_True if_False)
  next
    case many
    then have c0: "(?N = 0) = False" and c1: "(?N = 1) = False" by simp_all
    have "results_to_JSON results =
            cJSON_AddItemToObject
              (cJSON_AddNumberToObject cJSON_CreateObject ''resultsCount''
                 (word_of_nat (length results)))
              ''results''
              (cJSON_Array (map (\<lambda>r. cJSON_Object (result_fields r))
                 (take (nat ?N) results)))"
      unfolding results_to_JSON_def
      by (simp only: Let_def resultsCount_eq_0 resultsCount_eq_1 c0 c1 if_False
          single_result_fields cJSON_CreateArray_def add_items_Array append_Nil
          sint_resultsCount map_result_fields_take [OF response_count_le])
    also have "\<dots> = cJSON_Object
          [(''resultsCount'', cJSON_Number ?N),
           (''results'', cJSON_Array
              (map (\<lambda>r. cJSON_Object (result_fields r)) (take (nat ?N) results)))]"
      by (simp add: cJSON_CreateObject_def cJSON_AddNumberToObject_def c_str_names
          sint_resultsCount)
    finally show ?thesis
      by (simp only: response_document_def c0 c1 if_False)
  qed
qed

lemma response_count_wrap:
  "response_count (replicate 4294967296 r) = 0"
  by (simp only: response_count_def length_replicate) simp

text \<open>
  C2, as the code has it. The claim puts the result's type name and textual data in the
  document and takes N to be the length of the sequence. The code hands every string to
  cJSON through \<open>c_str()\<close> and reads the length through \<open>static_cast<int>\<close>: a
  textual data that starts with a NUL byte enters the document as the empty string, and
  a sequence of \<open>2 ^ 32\<close> results gives the document of no result.
\<close>

theorem DecodeImage_document_counterexample:
  "DecodeImage
     (\<lambda>cfg imageData width height. Inr
        [\<lparr>barcodeTypeName = ''QR'', textualData = [CHR 0x00, CHR ''A''], extra = []\<rparr>])
     licensed_state [NapiBuffer [0], NapiNumber 1 1, NapiNumber 1 1] =
     (Inr (Decoded (cJSON_Object [(''resultsCount'', cJSON_Number 1),
                   (''barcodeTypeName'', cJSON_String ''QR''),
                   (''textualData'', cJSON_String [])])), licensed_state)
   \<and> [CHR 0x00, CHR ''A''] \<noteq> []
   \<and> DecodeImage
       (\<lambda>cfg imageData width height. Inr
          (replicate 4294967296
             \<lparr>barcodeTypeName = ''QR'', textualData = ''ABC'', extra = []\<rparr>))
       licensed_state [NapiBuffer [0], NapiNumber 1 1, NapiNumber 1 1] =
     (Inr (Decoded (cJSON_Object [(''resultsCount'', cJSON_Number 0),
                   (''barcodeTypeName'', cJSON_String []),
                   (''textualData'', cJSON_String [])])), licensed_state)
   \<and> length (replicate 4294967296
         \<lparr>barcodeTypeName = ''QR'', textualData = ''ABC'', extra = []\<rparr>) = 4294967296"
proof -
  have d1: "response_document
      [\<lparr>barcodeTypeName = ''QR'', textualData = [CHR 0x00, CHR ''A''], extra = []\<rparr>] =
      cJSON_Object [(''resultsCount'', cJSON_Number 1),
                   (''barcodeTypeName'', cJSON_String ''QR''),
                   (''textualData'', cJSON_String [])]"
    by (simp add: response_document_def response_count_def result_fields_def c_str_def)
  have d2: "response_document (replicate 4294967296
             \<lparr>barcodeTypeName = ''QR'', textualData = ''ABC'', extra = []\<rparr>) =
      cJSON_Object [(''resultsCount'', cJSON_Number 0),
                   (''barcodeTypeName'', cJSON_String []),
                   (''textualData'', cJSON_String [])]"
    by (simp only: response_document_def response_count_wrap if_True simp_thms)
  have len: "length (replicate 4294967296
         \<lparr>barcodeTypeName = ''QR'', textualData = ''ABC'', extra = []\<rparr>) = 4294967296"
    by (simp only: length_replicate)
  have nonempty: "[CHR 0x00, CHR ''A''] \<noteq> []" by simp
  note r1 = DecodeImage_returns
    [where engine = "\<lambda>cfg imageData width height. Inr
        [\<lparr>barcodeTypeName = ''QR'', textualData = [CHR 0x00, CHR ''A''], extra = []\<rparr>]"
      and results =
        "[\<lparr>barcodeTypeName = ''QR'', textualData = [CHR 0x00, CHR ''A''], extra = []\<rparr>]"
      and fw = 1 and fh = 1 and rest = "[]",
      OF licensed_config one_pixel_guard refl]
  note r2 = DecodeImage_returns
    [where engine = "\<lambda>cfg imageData width height. Inr
          (replicate 4294967296
             \<lparr>barcodeTypeName = ''QR'', textualData = ''ABC'', extra = []\<rparr>)"
      and results = "replicate 4294967296
             \<lparr>barcodeTypeName = ''QR'', textualData = ''ABC'', extra = []\<rparr>"
      and fw = 1 and fh = 1 and rest = "[]",
      OF licensed_config one_pixel_guard refl]
  show ?thesis
    using r1 r2 len nonempty by (simp only: results_to_JSON_document d1 d2 simp_thms)
qed

text \<open>
  C2, amended. For every result sequence the engine returns to DecodeImage, the
  response document has one of three shapes, by N, the length of the sequence read as a
  32-bit signed integer (the length itself below \<open>2 ^ 31\<close>), and every string in it is
  the string of the result up to its first NUL byte. N = 0: resultsCount 0, an empty
  barcodeTypeName, an empty textualData and nothing else. N = 1: a flat document with
  resultsCount 1, the result's barcodeTypeName and textualData, and each auxiliary pair
  as a top-level field. Any other N: resultsCount N and a results array of the
  sub-documents of the first N results in sequence order, each holding its own
  barcodeTypeName, textualData and auxiliary pairs.
\<close>

theorem DecodeImage_document:
  assumes "config st = Some cfg"
    and "\<not> (word_of_nat (length imageData) :: size_t) < scast (width * height)"
    and "engine cfg imageData width height = Inr results"
  shows "DecodeImage engine st
           (NapiBuffer imageData # NapiNumber width fw # NapiNumber height fh # rest) =
         (Inr (Decoded (response_document results)), st)
       \<and> (length results < 2 ^ 31 \<longrightarrow> response_count results = int (length results))"
proof (intro conjI impI)
  show "DecodeImage engine st
           (NapiBuffer imageData # NapiNumber width fw # NapiNumber height fh # rest) =
         (Inr (Decoded (response_document results)), st)"
    using DecodeImage_returns [where engine = engine and results = results, OF assms]
    by (simp only: results_to_JSON_document)
next
  assume "length results < 2 ^ 31"
  then show "response_count results = int (length results)"
    by (rule response_count_small)
qed

text \<open>
  The three examples of the spec: no result, one QR result with a pair, two results.
\<close>

theorem DecodeImage_document_witness:
  "DecodeImage (\<lambda>cfg imageData width height. Inr []) licensed_state
     [NapiBuffer [0], NapiNumber 1 1, NapiNumber 1 1] =
     (Inr (Decoded (cJSON_Object [(''resultsCount'', cJSON_Number 0),
                   (''barcodeTypeName'', cJSON_String []),
                   (''textualData'', cJSON_String [])])), licensed_state)
   \<and> DecodeImage
       (\<lambda>cfg imageData width height. Inr
          [\<lparr>barcodeTypeName = ''QR'', textualData = ''ABC'', extra = [(''gs1'', ''01'')]\<rparr>])
       licensed_state [NapiBuffer [0], NapiNumber 1 1, NapiNumber 1 1] =
     (Inr (Decoded (cJSON_Object [(''resultsCount'', cJSON_Number 1),
                   (''barcodeTypeName'', cJSON_String ''QR''),
                   (''textualData'', cJSON_String ''ABC''),
                   (''gs1'', cJSON_String ''01'')])), licensed_state)
   \<and> DecodeImage
       (\<lambda>cfg imageData width height. Inr
          [\<lparr>barcodeTypeName = ''QR'', textualData = ''ABC'', extra = [(''gs1'', ''01'')]\<rparr>,
           \<lparr>barcodeTypeName = ''Code128'', textualData = ''XYZ'', extra = []\<rparr>])
       licensed_state [NapiBuffer [0], NapiNumber 1 1, NapiNumber 1 1] =
     (Inr (Decoded (cJSON_Object [(''resultsCount'', cJSON_Number 2),
                   (''results'', cJSON_Array
                      [cJSON_Object [(''barcodeTypeName'', cJSON_String ''QR''),
                                     (''textualData'', cJSON_String ''ABC''),
                                     (''gs1'', cJSON_String ''01'')],
                       cJSON_Object [(''barcodeTypeName'', cJSON_String ''Code128''),
                                     (''textualData'', cJSON_String ''XYZ'')]])])),
      licensed_state)"
proof -
  note none = DecodeImage_document [where engine = "\<lambda>cfg imageData width height. Inr []"
      and results = "[]" and fw = 1 and fh = 1 and rest = "[]",
      OF licensed_config one_pixel_guard refl]
  note one = DecodeImage_document
    [where engine = "\<lambda>cfg imageData width height. Inr
          [\<lparr>barcodeTypeName = ''QR'', textualData = ''ABC'', extra = [(''gs1'', ''01'')]\<rparr>]"
      and results =
        "[\<lparr>barcodeTypeName = ''QR'', textualData = ''ABC'', extra = [(''gs1'', ''01'')]\<rparr>]"
      and fw = 1 and fh = 1 and rest = "[]",
      OF licensed_config one_pixel_guard refl]
  note two = DecodeImage_document
    [where engine = "\<lambda>cfg imageData width height. Inr
          [\<lparr>barcodeTypeName = ''QR'', textualData = ''ABC'', extra = [(''gs1'', ''01'')]\<rparr>,
           \<lparr>barcodeTypeName = ''Code128'', textualData = ''XYZ'', extra = []\<rparr>]"
      and results =
        "[\<lparr>barcodeTypeName = ''QR'', textualData = ''ABC'', extra = [(''gs1'', ''01'')]\<rparr>,
          \<lparr>barcodeTypeName = ''Code128'', textualData = ''XYZ'', extra = []\<rparr>]"
      and fw = 1 and fh = 1 and rest = "[]",
      OF licensed_config one_pixel_guard refl]
  show ?thesis
    using none one two
    by (simp add: response_document_def response_count_def result_fields_def c_str_def)
qed

section \<open>Calls before initialization\<close>

lemma step_uninitialized:
  assumes "config st = None" "\<not> is_initialize e"
  shows "step st e = (Inl NotInitialized, st)"
  using assms
  by (cases e)
     (simp_all add: SetEnabledDecoders_def SetDecodingSpeed_def SetRegionOfInterest_def
        DecodeImage_def)

lemma Initialize_failure_keeps_state:
  assumes "isl (fst (Initialize sdk st info))"
  shows "snd (Initialize sdk st info) = st"
  using assms
  by (auto simp add: Initialize_def Let_def split: if_splits sum.splits ConfigResponse.splits)

lemma step_failure_keeps_uninitialized:
  assumes "config st = None" "is_initialize e \<longrightarrow> isl (fst (step st e))"
  shows "snd (step st e) = st"
proof (cases "is_initialize e")
  case True
  then obtain info sdk where e: "e = Call_initialize info sdk"
    by (cases e) simp_all
  with assms(2) True show ?thesis
    by (simp add: Initialize_failure_keeps_state)
next
  case False
  with assms(1) show ?thesis by (simp add: step_uninitialized)
qed

lemma run_without_success:
  assumes "config st = None"
    and "\<forall>p \<in> set (zip es (fst (run st es))). is_initialize (fst p) \<longrightarrow> isl (snd p)"
  shows "snd (run st es) = st"
  using assms
proof (induction es arbitrary: st)
  case Nil
  then show ?case by simp
next
  case (Cons e es)
  obtain r st' where s: "step st e = (r, st')" by (cases "step st e")
  obtain rs st'' where r: "run st' es = (rs, st'')" by (cases "run st' es")
  from Cons.prems(2) s r have "is_initialize e \<longrightarrow> isl r" by simp
  with Cons.prems(1) s have same: "st' = st"
    using step_failure_keeps_uninitialized [of st e] by simp
  from Cons.prems(2) s r
  have "\<forall>p \<in> set (zip es (fst (run st' es))). is_initialize (fst p) \<longrightarrow> isl (snd p)"
    by simp
  with Cons.IH [of st'] Cons.prems(1) same have "snd (run st' es) = st'" by simp
  with s r same show ?case by simp
qed

text \<open>
  C4. After any history of calls from the module's start in which every call of
  initialize has failed, each of setEnabledDecoders, setDecodingSpeed,
  setRegionOfInterest and decodeImage, with any argument list, returns the NotInitialized
  error and no other, and leaves the state as it was, which is still the initial state.
\<close>

theorem NotInitialized_before_initialize:
  assumes "\<forall>p \<in> set (zip es (fst (run initial_state es))).
             is_initialize (fst p) \<longrightarrow> isl (snd p)"
    and "\<not> is_initialize e"
  shows "step (snd (run initial_state es)) e = (Inl NotInitialized, snd (run initial_state es))
         \<and> snd (run initial_state es) = initial_state"
proof -
  have none: "config initial_state = None" by (simp add: initial_state_def)
  have same: "snd (run initial_state es) = initial_state"
    using none assms(1) by (rule run_without_success)
  show ?thesis
    using step_uninitialized [OF none assms(2)] by (simp only: same simp_thms)
qed

text \<open>
  A history with a configuration call and a refused license key, then a decode call.
\<close>

theorem NotInitialized_before_initialize_witness:
  "step
     (snd (run initial_state
        [Call_setDecodingSpeed [NapiNumber 1 1],
         Call_initialize [NapiString ''expired key'']
           (\<lambda>key. Inr (Response_Error ''License expired''))]))
     (Call_decodeImage [NapiBuffer [0], NapiNumber 1 1, NapiNumber 1 1]
        (\<lambda>cfg imageData width height. Inr []))
   = (Inl NotInitialized, initial_state)"
proof -
  let ?es = "[Call_setDecodingSpeed [NapiNumber 1 1],
         Call_initialize [NapiString ''expired key'']
           (\<lambda>key. Inr (Response_Error ''License expired''))]"
  have failed: "\<forall>p \<in> set (zip ?es (fst (run initial_state ?es))).
                  is_initialize (fst p) \<longrightarrow> isl (snd p)"
    by (simp add: initial_state_def SetDecodingSpeed_def Initialize_def)
  have other: "\<not> is_initialize (Call_decodeImage [NapiBuffer [0], NapiNumber 1 1, NapiNumber 1 1]
        (\<lambda>cfg imageData width height. Inr []))"
    by simp
  show ?thesis
    using NotInitialized_before_initialize [OF failed other]
    by (simp add: initial_state_def SetDecodingSpeed_def Initialize_def)
qed

section \<open>Initialization\<close>

text \<open>
  C9. A call of initialize that succeeds leaves the registry with decoding speed Normal
  and maximum-results cap 1, and the process options with thread cap 1 and hardware
  acceleration off, whatever the state before the call held and whatever settings the
  registry handed out by the SDK carries.
\<close>

theorem Initialize_overwrites_settings:
  assumes "Initialize sdk st info = (Inr s, st')"
  shows "\<exists>cfg. config st' = Some cfg
           \<and> decodingSpeed cfg = DecodingSpeed_value Normal
           \<and> maximumResultsCount cfg = 1
           \<and> globalOptions st' BKGlobalOption_SetMaximumThreads = Some 1
           \<and> globalOptions st' BKGlobalOption_UseGPU = Some 0"
  using assms
  by (auto simp add: Initialize_def Let_def SetGlobalOption_def
      split: if_splits sum.splits ConfigResponse.splits)

text \<open>
  Re-initialization of a state whose registry had speed Slow and cap 5.
\<close>

theorem Initialize_overwrites_settings_witness:
  "decodingSpeed sample_Config = DecodingSpeed_value Slow
   \<and> maximumResultsCount sample_Config = 5
   \<and> (\<exists>cfg. config (snd (Initialize (\<lambda>key. Inr (Response_Success ''OK'' sample_Config))
                           licensed_state [NapiString ''key''])) = Some cfg
         \<and> decodingSpeed cfg = DecodingSpeed_value Normal
         \<and> maximumResultsCount cfg = 1)"
proof -
  let ?call = "Initialize (\<lambda>key. Inr (Response_Success ''OK'' sample_Config))
                 licensed_state [NapiString ''key'']"
  have ok: "?call = (Inr (Initialized ''OK''), snd ?call)"
    by (simp add: Initialize_def Let_def)
  show ?thesis
    using Initialize_overwrites_settings [OF ok]
    by (auto simp add: sample_Config_def)
qed

section \<open>Enabled decoders\<close>

lemma Config_SetEnabledDecoders_rejects:
  assumes "\<exists>c \<in> set ds. DecoderType_of_value c = None"
  shows "Config_SetEnabledDecoders cfg ds = Inl (ValidationError ''Unknown decoder type'')"
  using assms by (auto simp add: Config_SetEnabledDecoders_def list_all_iff)

lemma Config_SetEnabledDecoders_replaces:
  assumes "\<forall>c \<in> set ds. DecoderType_of_value c \<noteq> None"
  shows "\<exists>cfg'. Config_SetEnabledDecoders cfg ds = Inr cfg'
           \<and> (\<forall>t. enabled (decoderConfigs cfg' t) = (\<exists>c \<in> set ds. DecoderType_of_value c = Some t))"
  using assms
  by (auto simp add: Config_SetEnabledDecoders_def list_all_iff image_iff) metis+

lemma enabledDecoders_of_filter:
  "enabledDecoders_of elems = map Int32Value (filter IsNumber elems)"
  by (induction elems) simp_all

lemma DecoderType_of_value_2: "DecoderType_of_value 2 = Some QR"
  by (simp add: DecoderType_of_value_def all_DecoderTypes_def)

lemma DecoderType_of_value_4: "DecoderType_of_value 4 = Some Code128"
  by (simp add: DecoderType_of_value_def all_DecoderTypes_def)

lemma DecoderType_of_value_99: "DecoderType_of_value 99 = None"
  by (simp add: DecoderType_of_value_def all_DecoderTypes_def)

lemma SetEnabledDecoders_QR_only:
  assumes "enabledDecoders_of elems = [2]"
  shows "fst (SetEnabledDecoders licensed_state [NapiArray elems]) = Inr (EnabledDecoders 1)"
    and "enabled (decoderConfigs
           (the (config (snd (SetEnabledDecoders licensed_state [NapiArray elems])))) QR)"
  using assms
  by (simp_all add: SetEnabledDecoders_def licensed_state_def Config_SetEnabledDecoders_def
      DecoderType_of_value_2)

text \<open>
  C5, as the code has it. The claim rejects every list that holds an unknown or
  out-of-range decoder code. The code reads each number through \<open>Int32Value\<close> and skips
  every element that is no number: the list holding the number 4294967298, whose
  \<open>Int32Value\<close> is 2, and the list holding 2 and the string "99" are accepted, and
  each enables QR.
\<close>

theorem SetEnabledDecoders_all_or_nothing_counterexample:
  "\<not> decoder_code (NapiNumber 2 4294967298)
   \<and> fst (SetEnabledDecoders licensed_state [NapiArray [NapiNumber 2 4294967298]])
       = Inr (EnabledDecoders 1)
   \<and> enabled (decoderConfigs (the (config (snd
       (SetEnabledDecoders licensed_state [NapiArray [NapiNumber 2 4294967298]])))) QR)
   \<and> \<not> decoder_code (NapiString ''99'')
   \<and> fst (SetEnabledDecoders licensed_state [NapiArray [NapiNumber 2 2, NapiString ''99'']])
       = Inr (EnabledDecoders 1)
   \<and> enabled (decoderConfigs (the (config (snd
       (SetEnabledDecoders licensed_state [NapiArray [NapiNumber 2 2, NapiString ''99'']])))) QR)"
proof -
  have wrap: "enabledDecoders_of [NapiNumber 2 4294967298] = [2]" by simp
  have skip: "enabledDecoders_of [NapiNumber 2 2, NapiString ''99''] = [2]" by simp
  have "\<not> decoder_code (NapiNumber 2 4294967298)" "\<not> decoder_code (NapiString ''99'')"
    by (simp_all add: decoder_code_def)
  with SetEnabledDecoders_QR_only [OF wrap] SetEnabledDecoders_QR_only [OF skip]
  show ?thesis by (simp only: simp_thms)
qed

text \<open>
  C5, amended. On an initialized registry setEnabledDecoders skips the elements of the
  array that are no numbers and reads each number through its conversion to a 32-bit
  integer. If one of the integers read is no ordinal of DecoderType, the whole call is
  rejected with a validation error and the state, hence every enabled flag, is unchanged.
  If every integer read is an ordinal of DecoderType, the call succeeds and afterwards a
  DecoderType is enabled exactly when its ordinal was read from a number of the array,
  whatever its flag was before.
\<close>

theorem SetEnabledDecoders_all_or_nothing:
  assumes "config st = Some cfg"
  shows "((\<exists>e \<in> set elems. IsNumber e \<and> DecoderType_of_value (Int32Value e) = None) \<longrightarrow>
            SetEnabledDecoders st (NapiArray elems # rest) =
              (Inl (ValidationError ''Unknown decoder type''), st))
       \<and> ((\<forall>e \<in> set elems. IsNumber e \<longrightarrow> DecoderType_of_value (Int32Value e) \<noteq> None) \<longrightarrow>
            (\<exists>cfg'. SetEnabledDecoders st (NapiArray elems # rest) =
                      (Inr (EnabledDecoders (length (filter IsNumber elems))),
                       st\<lparr>config := Some cfg'\<rparr>)
                 \<and> (\<forall>t. enabled (decoderConfigs cfg' t) =
                        (\<exists>e \<in> set elems. IsNumber e
                           \<and> DecoderType_of_value (Int32Value e) = Some t))))"
proof (intro conjI impI)
  let ?codes = "map Int32Value (filter IsNumber elems)"
  assume "\<exists>e \<in> set elems. IsNumber e \<and> DecoderType_of_value (Int32Value e) = None"
  then have "\<exists>c \<in> set ?codes. DecoderType_of_value c = None"
    by auto
  then have "Config_SetEnabledDecoders cfg ?codes = Inl (ValidationError ''Unknown decoder type'')"
    by (rule Config_SetEnabledDecoders_rejects)
  with assms show "SetEnabledDecoders st (NapiArray elems # rest) =
              (Inl (ValidationError ''Unknown decoder type''), st)"
    by (simp add: SetEnabledDecoders_def enabledDecoders_of_filter)
next
  let ?codes = "map Int32Value (filter IsNumber elems)"
  assume "\<forall>e \<in> set elems. IsNumber e \<longrightarrow> DecoderType_of_value (Int32Value e) \<noteq> None"
  then have "\<forall>c \<in> set ?codes. DecoderType_of_value c \<noteq> None"
    by auto
  then obtain cfg' where ok: "Config_SetEnabledDecoders cfg ?codes = Inr cfg'"
    and en: "\<forall>t. enabled (decoderConfigs cfg' t) =
                (\<exists>c \<in> set ?codes. DecoderType_of_value c = Some t)"
    using Config_SetEnabledDecoders_replaces [of ?codes cfg] by blast
  from assms ok have call: "SetEnabledDecoders st (NapiArray elems # rest) =
                      (Inr (EnabledDecoders (length (filter IsNumber elems))),
                       st\<lparr>config := Some cfg'\<rparr>)"
    by (simp add: SetEnabledDecoders_def enabledDecoders_of_filter)
  from en have "\<forall>t. enabled (decoderConfigs cfg' t) =
                  (\<exists>e \<in> set elems. IsNumber e \<and> DecoderType_of_value (Int32Value e) = Some t)"
    by auto
  with call show "\<exists>cfg'. SetEnabledDecoders st (NapiArray elems # rest) =
                      (Inr (EnabledDecoders (length (filter IsNumber elems))),
                       st\<lparr>config := Some cfg'\<rparr>)
                 \<and> (\<forall>t. enabled (decoderConfigs cfg' t) =
                        (\<exists>e \<in> set elems. IsNumber e
                           \<and> DecoderType_of_value (Int32Value e) = Some t))"
    by blast
qed

text \<open>
  The list QR, 99 is rejected; the list QR, Code128 enables these two and not Aztec.
\<close>

theorem SetEnabledDecoders_all_or_nothing_witness:
  "SetEnabledDecoders licensed_state [NapiArray [NapiNumber 2 2, NapiNumber 99 99]] =
     (Inl (ValidationError ''Unknown decoder type''), licensed_state)
   \<and> (\<exists>cfg'. SetEnabledDecoders licensed_state [NapiArray [NapiNumber 2 2, NapiNumber 4 4]] =
               (Inr (EnabledDecoders 2), licensed_state\<lparr>config := Some cfg'\<rparr>)
          \<and> enabled (decoderConfigs cfg' QR) \<and> enabled (decoderConfigs cfg' Code128)
          \<and> \<not> enabled (decoderConfigs cfg' Aztec))"
proof -
  have bad: "\<exists>e \<in> set [NapiNumber 2 2, NapiNumber 99 99].
               IsNumber e \<and> DecoderType_of_value (Int32Value e) = None"
    by (simp add: DecoderType_of_value_99)
  have good: "\<forall>e \<in> set [NapiNumber 2 2, NapiNumber 4 4].
                IsNumber e \<longrightarrow> DecoderType_of_value (Int32Value e) \<noteq> None"
    by (simp add: DecoderType_of_value_2 DecoderType_of_value_4)
  note a = SetEnabledDecoders_all_or_nothing [OF licensed_config,
      of "[NapiNumber 2 2, NapiNumber 99 99]" "[]", THEN conjunct1, THEN mp, OF bad]
  note b = SetEnabledDecoders_all_or_nothing [OF licensed_config,
      of "[NapiNumber 2 2, NapiNumber 4 4]" "[]", THEN conjunct2, THEN mp, OF good]
  from b obtain cfg' where
    r: "SetEnabledDecoders licensed_state [NapiArray [NapiNumber 2 2, NapiNumber 4 4]] =
          (Inr (EnabledDecoders (length (filter IsNumber [NapiNumber 2 2, NapiNumber 4 4]))),
           licensed_state\<lparr>config := Some cfg'\<rparr>)"
    and en: "\<And>t. enabled (decoderConfigs cfg' t) =
          (\<exists>e \<in> set [NapiNumber 2 2, NapiNumber 4 4].
             IsNumber e \<and> DecoderType_of_value (Int32Value e) = Some t)"
    by blast
  have "enabled (decoderConfigs cfg' QR)" "enabled (decoderConfigs cfg' Code128)"
    "\<not> enabled (decoderConfigs cfg' Aztec)"
    by (simp_all add: en DecoderType_of_value_2 DecoderType_of_value_4)
  with r a show ?thesis by (intro conjI exI [of _ cfg']) simp_all
qed

section \<open>Decoding speed\<close>

text \<open>
  C8, as the code has it. The claim has setDecodingSpeed validate that the integer is in
  the range 0 to 3. The code validates nothing about the integer: the call with 7 succeeds
  and replaces the stored speed Slow by 7, which is outside the range.
\<close>

theorem SetDecodingSpeed_stores_counterexample:
  "SetDecodingSpeed licensed_state [NapiNumber 7 7] =
     (Inr (DecodingSpeedSet 7),
      licensed_state\<lparr>config := Some (sample_Config\<lparr>decodingSpeed := 7\<rparr>)\<rparr>)
   \<and> decodingSpeed sample_Config = DecodingSpeed_value Slow
   \<and> 3 < sint (7 :: int32)"
  by (simp add: SetDecodingSpeed_def licensed_state_def sample_Config_def)

text \<open>
  C8, amended. On an initialized registry setDecodingSpeed succeeds for every 32-bit
  integer and stores it as the decoding speed, with no range check. The stored value is
  the enumerated speed the integer stands for when it is 0 (Fast), 1 (Normal), 2 (Slow) or
  3 (Rigorous); an integer outside 0 to 3 is stored all the same and is the value of no
  enumerated speed.
\<close>

theorem SetDecodingSpeed_stores:
  assumes "config st = Some cfg"
  shows "SetDecodingSpeed st (NapiNumber speed f # rest) =
           (Inr (DecodingSpeedSet speed), st\<lparr>config := Some (cfg\<lparr>decodingSpeed := speed\<rparr>)\<rparr>)
         \<and> (\<forall>s. speed = DecodingSpeed_value s \<longrightarrow> DecodingSpeed_of_value speed = Some s)
         \<and> (sint speed < 0 \<or> 3 < sint speed \<longrightarrow> DecodingSpeed_of_value speed = None)"
proof (intro conjI allI impI)
  show "SetDecodingSpeed st (NapiNumber speed f # rest) =
           (Inr (DecodingSpeedSet speed), st\<lparr>config := Some (cfg\<lparr>decodingSpeed := speed\<rparr>)\<rparr>)"
    using assms by (simp add: SetDecodingSpeed_def)
next
  fix s assume "speed = DecodingSpeed_value s"
  then show "DecodingSpeed_of_value speed = Some s"
    by (cases s) (simp_all add: DecodingSpeed_of_value_def)
next
  assume "sint speed < 0 \<or> 3 < sint speed"
  then have "speed \<noteq> 0" "speed \<noteq> 1" "speed \<noteq> 2" "speed \<noteq> 3"
    by auto
  then show "DecodingSpeed_of_value speed = None"
    by (simp add: DecodingSpeed_of_value_def)
qed

theorem SetDecodingSpeed_stores_witness:
  "SetDecodingSpeed licensed_state [NapiNumber 3 3] =
     (Inr (DecodingSpeedSet 3),
      licensed_state\<lparr>config := Some (sample_Config\<lparr>decodingSpeed := 3\<rparr>)\<rparr>)
   \<and> DecodingSpeed_of_value 3 = Some Rigorous
   \<and> DecodingSpeed_of_value (- 1) = None"
proof -
  note t = SetDecodingSpeed_stores [OF licensed_config, of 3 3 "[]"]
  note u = SetDecodingSpeed_stores [OF licensed_config, of "- 1" 0 "[]"]
  have three: "(3 :: int32) = DecodingSpeed_value Rigorous" by simp
  have minus: "sint (- 1 :: int32) < 0 \<or> 3 < sint (- 1 :: int32)" by simp
  from t have "DecodingSpeed_of_value 3 = Some Rigorous"
    using three by blast
  moreover from u have "DecodingSpeed_of_value (- 1) = None"
    using minus by blast
  moreover from t have "SetDecodingSpeed licensed_state [NapiNumber 3 3] =
     (Inr (DecodingSpeedSet 3),
      licensed_state\<lparr>config := Some (sample_Config\<lparr>decodingSpeed := 3\<rparr>)\<rparr>)"
    by blast
  ultimately show ?thesis by blast
qed

section \<open>The buffer-size guard of DecodeImage\<close>

lemma product_in_range:
  assumes "0 \<le> (p::int)" "p < 2 ^ 31"
  shows "((p + 2 ^ 31) mod 2 ^ 32 - 2 ^ 31) mod 2 ^ 64 = p"
proof -
  have "(p + 2 ^ 31) mod 2 ^ 32 = p + 2 ^ 31"
    using assms by (intro mod_pos_pos_trivial) simp_all
  moreover have "p mod 2 ^ 64 = p"
    using assms by (intro mod_pos_pos_trivial) simp_all
  ultimately show ?thesis by simp
qed

lemma product_negative:
  assumes "(p::int) < 0" "- (2 ^ 31) \<le> p"
  shows "((p + 2 ^ 31) mod 2 ^ 32 - 2 ^ 31) mod 2 ^ 64 = p + 2 ^ 64"
proof -
  have "(p + 2 ^ 31) mod 2 ^ 32 = p + 2 ^ 31"
    using assms by (intro mod_pos_pos_trivial) simp_all
  then have "((p + 2 ^ 31) mod 2 ^ 32 - 2 ^ 31) mod 2 ^ 64 = p mod 2 ^ 64"
    by simp
  also have "\<dots> = (p + 2 ^ 64) mod 2 ^ 64"
    by simp
  also have "\<dots> = p + 2 ^ 64"
    using assms by (intro mod_pos_pos_trivial) simp_all
  finally show ?thesis .
qed

text \<open>
  Where the product of width and height is at least 0 and does not overflow 32 bits,
  the guard compares the buffer length with the true product.
\<close>

lemma DecodeImage_guard_in_range:
  assumes "config st = Some cfg"
    and "length imageData < 2 ^ 64"
    and "0 \<le> sint width * sint height"
    and "sint width * sint height < 2 ^ 31"
  shows "DecodeImage engine st
           (NapiBuffer imageData # NapiNumber width fw # NapiNumber height fh # rest) =
         (if int (length imageData) < sint width * sint height then
            (Inl (ValidationError ''Buffer too small for specified dimensions''), st)
          else
            (case engine cfg imageData width height of
               Inl what \<Rightarrow> (Inl (EngineError what), st)
             | Inr results \<Rightarrow> (Inr (Decoded (results_to_JSON results)), st)))"
  by (simp only: DecodeImage_args [OF assms(1)] buffer_guard [OF assms(2)]
      product_in_range [OF assms(3,4)])

text \<open>
  C3. The claim: a call with a buffer shorter than width * height fails with the
  buffer-too-small validation error and the engine is not called. The code multiplies the
  two \<open>int\<close>s in 32 bits under the comment "Validate buffer size": 65536 * 65536 wraps
  to 0, the empty buffer passes the guard, and the engine is called on it and its result
  returned.
\<close>

theorem DecodeImage_buffer_guard_overflow:
  "int (length ([] :: 8 word list)) < sint (65536 :: int32) * sint (65536 :: int32)
   \<and> DecodeImage
       (\<lambda>cfg imageData width height. Inr
          [\<lparr>barcodeTypeName = ''QR'', textualData = ''ABC'', extra = []\<rparr>])
       licensed_state [NapiBuffer [], NapiNumber 65536 65536, NapiNumber 65536 65536] =
     (Inr (Decoded (cJSON_Object [(''resultsCount'', cJSON_Number 1),
                   (''barcodeTypeName'', cJSON_String ''QR''),
                   (''textualData'', cJSON_String ''ABC'')])), licensed_state)"
proof -
  have guard: "\<not> (word_of_nat (length ([] :: 8 word list)) :: size_t)
                   < scast (65536 * 65536 :: int32)"
    by simp
  have d: "response_document
      [\<lparr>barcodeTypeName = ''QR'', textualData = ''ABC'', extra = []\<rparr>] =
      cJSON_Object [(''resultsCount'', cJSON_Number 1),
                   (''barcodeTypeName'', cJSON_String ''QR''),
                   (''textualData'', cJSON_String ''ABC'')]"
    by (simp add: response_document_def response_count_def result_fields_def c_str_def)
  have short: "int (length ([] :: 8 word list)) < sint (65536 :: int32) * sint (65536 :: int32)"
    by simp
  show ?thesis
    using DecodeImage_returns
      [where engine = "\<lambda>cfg imageData width height. Inr
          [\<lparr>barcodeTypeName = ''QR'', textualData = ''ABC'', extra = []\<rparr>]"
        and results = "[\<lparr>barcodeTypeName = ''QR'', textualData = ''ABC'', extra = []\<rparr>]"
        and fw = 65536 and fh = 65536 and rest = "[]",
        OF licensed_config guard refl] short
    by (simp only: results_to_JSON_document d simp_thms)
qed

text \<open>
  At this input the call does not end with the buffer-too-small error.
\<close>

theorem DecodeImage_buffer_guard_overflow_witness:
  "fst (DecodeImage
       (\<lambda>cfg imageData width height. Inr
          [\<lparr>barcodeTypeName = ''QR'', textualData = ''ABC'', extra = []\<rparr>])
       licensed_state [NapiBuffer [], NapiNumber 65536 65536, NapiNumber 65536 65536])
     \<noteq> Inl (ValidationError ''Buffer too small for specified dimensions'')"
  using DecodeImage_buffer_guard_overflow by simp

text \<open>
  C10, as the code has it. The claim has every call with exactly one negative dimension
  fail, so that no negative dimension reaches the engine. With width -1 and height 0 the
  product is 0, the guard passes for the empty buffer, and the engine is called with the
  negative width.
\<close>

theorem DecodeImage_guard_arithmetic_counterexample:
  "sint (- 1 :: int32) < 0 \<and> \<not> sint (0 :: int32) < 0
   \<and> DecodeImage
       (\<lambda>cfg imageData width height.
          if sint width < 0 then Inl ''negative width'' else Inr [])
       licensed_state [NapiBuffer [], NapiNumber (- 1) (- 1), NapiNumber 0 0] =
     (Inl (EngineError ''negative width''), licensed_state)"
  by (simp add: DecodeImage_def licensed_state_def Let_def)

text \<open>
  C10, amended. The guard multiplies width and height as 32-bit integers and converts
  the product to \<open>size_t\<close>: the buffer length is compared with the wrapped 32-bit
  product taken modulo \<open>2 ^ 64\<close>, not with the true product. When the true product is
  negative and not below \<open>- 2 ^ 31\<close> (one dimension negative, the other positive, no
  overflow), the converted product is at least \<open>2 ^ 64 - 2 ^ 31\<close>, and the call fails
  with the buffer-too-small error for every buffer shorter than that, without a call of
  the engine.
\<close>

theorem DecodeImage_guard_arithmetic:
  assumes "config st = Some cfg"
    and "length imageData < 2 ^ 64"
  shows "DecodeImage engine st
           (NapiBuffer imageData # NapiNumber width fw # NapiNumber height fh # rest) =
         (if int (length imageData)
               < ((sint width * sint height + 2 ^ 31) mod 2 ^ 32 - 2 ^ 31) mod 2 ^ 64 then
            (Inl (ValidationError ''Buffer too small for specified dimensions''), st)
          else
            (case engine cfg imageData width height of
               Inl what \<Rightarrow> (Inl (EngineError what), st)
             | Inr results \<Rightarrow> (Inr (Decoded (results_to_JSON results)), st)))
       \<and> (sint width * sint height < 0 \<and> - (2 ^ 31) \<le> sint width * sint height
            \<and> int (length imageData) < 2 ^ 64 - 2 ^ 31 \<longrightarrow>
          DecodeImage engine st
            (NapiBuffer imageData # NapiNumber width fw # NapiNumber height fh # rest) =
            (Inl (ValidationError ''Buffer too small for specified dimensions''), st))"
proof -
  let ?p = "sint width * sint height"
  let ?t = "((?p + 2 ^ 31) mod 2 ^ 32 - 2 ^ 31) mod 2 ^ 64"
  let ?call = "DecodeImage engine st
           (NapiBuffer imageData # NapiNumber width fw # NapiNumber height fh # rest)"
  have eq: "?call =
         (if int (length imageData) < ?t then
            (Inl (ValidationError ''Buffer too small for specified dimensions''), st)
          else
            (case engine cfg imageData width height of
               Inl what \<Rightarrow> (Inl (EngineError what), st)
             | Inr results \<Rightarrow> (Inr (Decoded (results_to_JSON results)), st)))"
    by (simp only: DecodeImage_args [OF assms(1)] buffer_guard [OF assms(2)])
  have neg: "?call = (Inl (ValidationError ''Buffer too small for specified dimensions''), st)"
    if "?p < 0 \<and> - (2 ^ 31) \<le> ?p \<and> int (length imageData) < 2 ^ 64 - 2 ^ 31"
  proof -
    have t: "?t = ?p + 2 ^ 64"
      using that by (intro product_negative) simp_all
    have "int (length imageData) < 2 ^ 64 - 2 ^ 31"
      using that by (rule conjunct2 [THEN conjunct2])
    also have "(2::int) ^ 64 - 2 ^ 31 \<le> ?p + 2 ^ 64"
      using that by simp
    finally have "int (length imageData) < ?t"
      by (simp only: t)
    then show ?thesis by (simp only: eq if_True)
  qed
  show ?thesis
  proof (intro conjI impI)
    show "?call =
         (if int (length imageData) < ?t then
            (Inl (ValidationError ''Buffer too small for specified dimensions''), st)
          else
            (case engine cfg imageData width height of
               Inl what \<Rightarrow> (Inl (EngineError what), st)
             | Inr results \<Rightarrow> (Inr (Decoded (results_to_JSON results)), st)))"
      by (rule eq)
  next
    assume "?p < 0 \<and> - (2 ^ 31) \<le> ?p \<and> int (length imageData) < 2 ^ 64 - 2 ^ 31"
    then show "?call =
      (Inl (ValidationError ''Buffer too small for specified dimensions''), st)"
      by (rule neg)
  qed
qed

text \<open>
  A negative product, and the product of 65536 by 65536, which wraps to 0.
\<close>

theorem DecodeImage_guard_arithmetic_witness:
  "DecodeImage (\<lambda>cfg imageData width height. Inr []) licensed_state
     [NapiBuffer [1, 2, 3, 4, 5, 6, 7], NapiNumber (- 2) (- 2), NapiNumber 3 3] =
     (Inl (ValidationError ''Buffer too small for specified dimensions''), licensed_state)
   \<and> DecodeImage (\<lambda>cfg imageData width height. Inr []) licensed_state
     [NapiBuffer [], NapiNumber 65536 65536, NapiNumber 65536 65536] =
     (Inr (Decoded (results_to_JSON [])), licensed_state)"
proof -
  have seven: "length [1, 2, 3, 4, 5, 6, 7 :: 8 word] < 2 ^ 64" by simp
  have none: "length ([] :: 8 word list) < 2 ^ 64" by simp
  have wrap: "((sint (65536 :: int32) * sint (65536 :: int32) + 2 ^ 31) mod 2 ^ 32 - 2 ^ 31)
                mod 2 ^ 64 = 0"
    by simp
  have neg: "sint (- 2 :: int32) * sint (3 :: int32) < 0
             \<and> - (2 ^ 31) \<le> sint (- 2 :: int32) * sint (3 :: int32)
             \<and> int (length [1, 2, 3, 4, 5, 6, 7 :: 8 word]) < 2 ^ 64 - 2 ^ 31"
    by simp
  show ?thesis
    using DecodeImage_guard_arithmetic [OF licensed_config seven,
        of "\<lambda>cfg imageData width height. Inr []" "- 2" "- 2" 3 3 "[]",
        THEN conjunct2, THEN mp, OF neg]
      DecodeImage_guard_arithmetic [OF licensed_config none,
        of "\<lambda>cfg imageData width height. Inr []" 65536 65536 65536 65536 "[]",
        THEN conjunct1]
    by (simp only: wrap) simp
qed

end
